theory Spec2Isabelle
  imports Main
begin

section \<open>JavaScript values and built-ins the service relies on\<close>

text \<open>
  A JavaScript string is represented by the bytes of its UTF-8 encoding, so that
  \<open>Buffer.from(s)\<close> is the string itself and its byte length is \<open>length\<close>.
  The separators the code splits on and the digits and signs \<open>parseInt\<close> reads are
  ASCII, so splitting bytes and splitting code units agree. Numbers are mathematical
  integers, \<open>NaN\<close> is \<open>None\<close>: this is exact as long as the values stay
  below \<open>2^53\<close> in magnitude, where doubles represent every integer.
  \<open>undefined\<close> and \<open>null\<close> are \<open>None\<close>.
\<close>

datatype exn = RangeError string | TypeError string

text \<open>Truthiness of an optional string: \<open>undefined\<close> and \<open>""\<close> are falsy.\<close>

definition truthy :: "string option \<Rightarrow> bool" where
  "truthy v = (case v of None \<Rightarrow> False | Some s \<Rightarrow> s \<noteq> [])"

text \<open>\<open>a || b\<close> on an optional string.\<close>

definition or_else :: "string option \<Rightarrow> string \<Rightarrow> string" where
  "or_else v d = (case v of None \<Rightarrow> d | Some s \<Rightarrow> if s = [] then d else s)"

text \<open>
  \<open>s.split(c)\<close> for a one-character separator: every segment, empty ones too;
  the result is never empty.
\<close>

fun split :: "char \<Rightarrow> string \<Rightarrow> string list" where
  "split c [] = [[]]"
| "split c (x # xs) =
     (if x = c then [] # split c xs
      else (case split c xs of [] \<Rightarrow> [[x]] | seg # segs \<Rightarrow> (x # seg) # segs))"

text \<open>\<open>arr[i]\<close>: \<open>undefined\<close> beyond the end.\<close>

definition at :: "'a list \<Rightarrow> nat \<Rightarrow> 'a option" where
  "at xs i = (if i < length xs then Some (xs ! i) else None)"

text \<open>Template-literal rendering of an optional string.\<close>

definition show_opt :: "string option \<Rightarrow> string" where
  "show_opt v = (case v of None \<Rightarrow> ''undefined'' | Some s \<Rightarrow> s)"

subsection \<open>Decimal digits\<close>

definition is_digit :: "char \<Rightarrow> bool" where
  "is_digit c = (c \<in> set ''0123456789'')"

definition digit_char :: "int \<Rightarrow> char" where
  "digit_char d = ''0123456789'' ! nat (d mod 10)"

definition digit_val :: "char \<Rightarrow> int" where
  "digit_val c = int (of_char c) - 48"

text \<open>
  The last \<open>k\<close> decimal digits of \<open>n \<ge> 0\<close>, zero-padded
  (\<open>String(n).padStart(k, "0")\<close> when \<open>n < 10^k\<close>).
\<close>

fun pad :: "nat \<Rightarrow> int \<Rightarrow> string" where
  "pad 0 n = []"
| "pad (Suc k) n = pad k (n div 10) @ [digit_char n]"

text \<open>Decimal rendering of an integer, as \<open>String(n)\<close> gives.\<close>

function show_nat :: "int \<Rightarrow> string" where
  "show_nat n = (if n < 10 then [digit_char n] else show_nat (n div 10) @ [digit_char n])"
  by pat_completeness auto
termination
  by (relation "measure nat") auto

declare show_nat.simps [simp del]

definition show_int :: "int \<Rightarrow> string" where
  "show_int i = (if i < 0 then CHR ''-'' # show_nat (- i) else show_nat i)"

subsection \<open>parseInt(s, 10)\<close>

text \<open>
  Length in bytes of the white space or line terminator a string starts with, 0 when it
  starts with none: TAB, LF, VT, FF, CR, SP, and in UTF-8 U+00A0, U+1680,
  U+2000..U+200A, U+2028, U+2029, U+202F, U+205F, U+3000, U+FEFF.
\<close>

definition ws_len :: "string \<Rightarrow> nat" where
  "ws_len s =
     (case s of
        [] \<Rightarrow> 0
      | c # cs \<Rightarrow>
          let b0 = (of_char c :: nat) in
          if b0 = 9 \<or> b0 = 10 \<or> b0 = 11 \<or> b0 = 12 \<or> b0 = 13 \<or> b0 = 32 then 1
          else (case cs of
                  [] \<Rightarrow> 0
                | c1 # cs1 \<Rightarrow>
                    let b1 = (of_char c1 :: nat) in
                    if b0 = 194 \<and> b1 = 160 then 2
                    else (case cs1 of
                            [] \<Rightarrow> 0
                          | c2 # _ \<Rightarrow>
                              let b2 = (of_char c2 :: nat) in
                              if b0 = 225 \<and> b1 = 154 \<and> b2 = 128 then 3
                              else if b0 = 226 \<and> b1 = 128 \<and>
                                      (128 \<le> b2 \<and> b2 \<le> 138 \<or> b2 = 168 \<or> b2 = 169 \<or> b2 = 175) then 3
                              else if b0 = 226 \<and> b1 = 129 \<and> b2 = 159 then 3
                              else if b0 = 227 \<and> b1 = 128 \<and> b2 = 128 then 3
                              else if b0 = 239 \<and> b1 = 187 \<and> b2 = 191 then 3
                              else 0)))"

function skip_ws :: "string \<Rightarrow> string" where
  "skip_ws s = (if ws_len s = 0 then s else skip_ws (drop (ws_len s) s))"
  by pat_completeness auto
termination
proof (relation "measure length")
  show "wf (measure length)" by simp
next
  fix s :: string
  assume "ws_len s \<noteq> 0"
  moreover have "ws_len s \<le> length s"
    by (auto simp: ws_len_def Let_def split: list.splits)
  ultimately show "(drop (ws_len s) s, s) \<in> measure length" by simp
qed

declare skip_ws.simps [simp del]

definition dec_value :: "string \<Rightarrow> int" where
  "dec_value ds = foldl (\<lambda>a c. 10 * a + digit_val c) 0 ds"

definition parseInt :: "string \<Rightarrow> int option" where
  "parseInt s =
     (let s1 = skip_ws s;
          neg = (case s1 of [] \<Rightarrow> False | c # _ \<Rightarrow> c = CHR ''-'');
          s2 = (case s1 of [] \<Rightarrow> [] | c # cs \<Rightarrow> if c = CHR ''-'' \<or> c = CHR ''+'' then cs else s1);
          ds = takeWhile is_digit s2
      in if ds = [] then None
         else Some (if neg then - dec_value ds else dec_value ds))"

section \<open>Date: time values and the calendar\<close>

text \<open>
  A time value is a number of milliseconds since the epoch; a Date object holds a time
  value or \<open>NaN\<close> (\<open>None\<close>, an invalid date). The functions below are the
  abstract operations of the language standard, on exact integers.
\<close>

definition msPerDay :: int where "msPerDay = 86400000"
definition msPerHour :: int where "msPerHour = 3600000"
definition msPerMinute :: int where "msPerMinute = 60000"
definition msPerSecond :: int where "msPerSecond = 1000"
definition maxTime :: int where "maxTime = 8640000000000000"

definition Day :: "int \<Rightarrow> int" where
  "Day t = t div msPerDay"

definition TimeWithinDay :: "int \<Rightarrow> int" where
  "TimeWithinDay t = t mod msPerDay"

definition DaysInYear :: "int \<Rightarrow> int" where
  "DaysInYear y =
     (if y mod 4 \<noteq> 0 then 365
      else if y mod 100 \<noteq> 0 then 366
      else if y mod 400 \<noteq> 0 then 365
      else 366)"

definition DayFromYear :: "int \<Rightarrow> int" where
  "DayFromYear y =
     365 * (y - 1970) + (y - 1969) div 4 - (y - 1901) div 100 + (y - 1601) div 400"

definition TimeFromYear :: "int \<Rightarrow> int" where
  "TimeFromYear y = msPerDay * DayFromYear y"

text \<open>
  The standard defines \<open>YearFromTime(t)\<close> as the largest \<open>y\<close> with
  \<open>TimeFromYear(y) \<le> t\<close>. It is computed here from an estimate by the mean length of
  a year (146097 days in 400 years), which is off by at most one.
\<close>

definition YearFromTime :: "int \<Rightarrow> int" where
  "YearFromTime t =
     (let d = Day t; y = 1970 + (d * 400) div 146097
      in if d < DayFromYear y then y - 1
         else if DayFromYear (y + 1) \<le> d then y + 1
         else y)"

definition InLeapYear :: "int \<Rightarrow> int" where
  "InLeapYear t = (if DaysInYear (YearFromTime t) = 365 then 0 else 1)"

definition DayWithinYear :: "int \<Rightarrow> int" where
  "DayWithinYear t = Day t - DayFromYear (YearFromTime t)"

definition MonthFromTime :: "int \<Rightarrow> int" where
  "MonthFromTime t =
     (let d = DayWithinYear t; l = InLeapYear t
      in if d < 31 then 0
         else if d < 59 + l then 1
         else if d < 90 + l then 2
         else if d < 120 + l then 3
         else if d < 151 + l then 4
         else if d < 181 + l then 5
         else if d < 212 + l then 6
         else if d < 243 + l then 7
         else if d < 273 + l then 8
         else if d < 304 + l then 9
         else if d < 334 + l then 10
         else 11)"

definition DateFromTime :: "int \<Rightarrow> int" where
  "DateFromTime t =
     (let d = DayWithinYear t; l = InLeapYear t; m = MonthFromTime t
      in if m = 0 then d + 1
         else if m = 1 then d - 30
         else if m = 2 then d - 58 - l
         else if m = 3 then d - 89 - l
         else if m = 4 then d - 119 - l
         else if m = 5 then d - 150 - l
         else if m = 6 then d - 180 - l
         else if m = 7 then d - 211 - l
         else if m = 8 then d - 242 - l
         else if m = 9 then d - 272 - l
         else if m = 10 then d - 303 - l
         else d - 333 - l)"

definition HourFromTime :: "int \<Rightarrow> int" where
  "HourFromTime t = (t div msPerHour) mod 24"

definition MinFromTime :: "int \<Rightarrow> int" where
  "MinFromTime t = (t div msPerMinute) mod 60"

definition SecFromTime :: "int \<Rightarrow> int" where
  "SecFromTime t = (t div msPerSecond) mod 60"

definition msFromTime :: "int \<Rightarrow> int" where
  "msFromTime t = t mod msPerSecond"

text \<open>Days from the start of a year to the start of its month \<open>m\<close> (0 to 11).\<close>

definition DaysBeforeMonth :: "int \<Rightarrow> int \<Rightarrow> int" where
  "DaysBeforeMonth m l =
     (if m = 0 then 0
      else if m = 1 then 31
      else if m = 2 then 59 + l
      else if m = 3 then 90 + l
      else if m = 4 then 120 + l
      else if m = 5 then 151 + l
      else if m = 6 then 181 + l
      else if m = 7 then 212 + l
      else if m = 8 then 243 + l
      else if m = 9 then 273 + l
      else if m = 10 then 304 + l
      else 334 + l)"

text \<open>
  \<open>MakeDay(year, month, date)\<close>: the day number of the first of the month
  \<open>month mod 12\<close> of the year \<open>year + floor(month / 12)\<close>, plus \<open>date - 1\<close>.
\<close>

definition MakeDay :: "int \<Rightarrow> int \<Rightarrow> int \<Rightarrow> int" where
  "MakeDay year month date =
     (let ym = year + month div 12; mn = month mod 12
      in DayFromYear ym + DaysBeforeMonth mn (if DaysInYear ym = 365 then 0 else 1) + date - 1)"

definition MakeDate :: "int \<Rightarrow> int \<Rightarrow> int" where
  "MakeDate day time = day * msPerDay + time"

definition TimeClip :: "int \<Rightarrow> int option" where
  "TimeClip time = (if \<bar>time\<bar> > maxTime then None else Some time)"


text \<open>
  \<open>toISOString\<close> of a finite time value: \<open>YYYY-MM-DDTHH:mm:ss.sssZ\<close>, the year
  with a sign and six digits when it is outside 0 to 9999.
\<close>

definition iso_year :: "int \<Rightarrow> string" where
  "iso_year y =
     (if 0 \<le> y \<and> y \<le> 9999 then pad 4 y
      else (if y < 0 then CHR ''-'' else CHR ''+'') # pad 6 \<bar>y\<bar>)"

definition iso_string :: "int \<Rightarrow> string" where
  "iso_string t =
     iso_year (YearFromTime t) @ ''-'' @ pad 2 (MonthFromTime t + 1) @ ''-'' @
     pad 2 (DateFromTime t) @ ''T'' @ pad 2 (HourFromTime t) @ '':'' @
     pad 2 (MinFromTime t) @ '':'' @ pad 2 (SecFromTime t) @ ''.'' @
     pad 3 (msFromTime t) @ ''Z''"

section \<open>Types of the service (types.ts) and of its collaborators\<close>

record WorkOrderPayload =
  priority :: "string option"
  dueDate :: "string option"
  title :: string
  assetId :: "int option"
  locationId :: "int option"
  description :: "string option"

record WorkOrderWebhookPayload =
  workOrderId :: int
  orgId :: int
  occurredAt :: string
  newWorkOrder :: "WorkOrderPayload option"

text \<open>
  The body of an HTTP response, typed \<open>any\<close> in the source: an object, of which only
  the property \<open>workOrder\<close> is read (\<open>None\<close> when it is absent), a string, or
  \<open>null\<close> or \<open>undefined\<close>, on which a property read throws.
\<close>

datatype data = DataObject "WorkOrderPayload option" | DataText string | DataNull | DataUndefined

record response =
  status :: int
  headers :: "(string \<times> string) list"
  data :: data

text \<open>What a rejected axios promise carries.\<close>

record axios_error =
  error_response :: "response option"
  message :: string
  isAxiosError :: bool

datatype outcome = Resolves response | Rejects axios_error

text \<open>
  Everything observable a call does, in order: console output with its level and
  arguments, and the HTTP requests issued.
\<close>

datatype level = LOG | WARN | ERROR

datatype arg = Txt string | Dat data

datatype effect =
    Console level "arg list"
  | Get string "(string \<times> string) list"
  | Patch string string "(string \<times> string) list"

text \<open>
  The platform: the clock, the host's time zone (\<open>LocalTZA(t, isUTC)\<close>), HMAC-SHA256
  with hex output (\<open>crypto.createHmac("sha256", key).update(msg, "utf8").digest("hex")\<close>),
  \<open>Buffer.toString("utf8")\<close> and \<open>JSON.stringify\<close>.
\<close>

record node =
  Date_now :: int
  LocalTZA :: "int \<Rightarrow> bool \<Rightarrow> int"
  hmac_sha256_hex :: "string \<Rightarrow> string \<Rightarrow> string"
  toString_utf8 :: "string \<Rightarrow> string"
  JSON_stringify :: "WorkOrderWebhookPayload \<Rightarrow> string"

definition LocalTime :: "node \<Rightarrow> int \<Rightarrow> int" where
  "LocalTime nd t = t + LocalTZA nd t True"

definition UTC :: "node \<Rightarrow> int \<Rightarrow> int" where
  "UTC nd t = t - LocalTZA nd t False"

subsection \<open>Methods of Date\<close>

definition Date_getDate :: "node \<Rightarrow> int option \<Rightarrow> int option" where
  "Date_getDate nd tv = map_option (\<lambda>t. DateFromTime (LocalTime nd t)) tv"

definition Date_setDate :: "node \<Rightarrow> int option \<Rightarrow> int option \<Rightarrow> int option" where
  "Date_setDate nd tv date =
     (case tv of
        None \<Rightarrow> None
      | Some t0 \<Rightarrow>
          (case date of
             None \<Rightarrow> None
           | Some dt \<Rightarrow>
               let t = LocalTime nd t0;
                   newDate = MakeDate (MakeDay (YearFromTime t) (MonthFromTime t) dt) (TimeWithinDay t)
               in TimeClip (UTC nd newDate)))"

definition Date_toISOString :: "int option \<Rightarrow> exn + string" where
  "Date_toISOString tv =
     (case tv of None \<Rightarrow> Inl (RangeError ''Invalid time value'') | Some t \<Rightarrow> Inr (iso_string t))"

text \<open>\<open>new Date(value)\<close> for a number.\<close>

definition Date_of_number :: "int option \<Rightarrow> int option" where
  "Date_of_number v = (case v of None \<Rightarrow> None | Some t \<Rightarrow> TimeClip t)"

section \<open>utils.ts\<close>

text \<open>
  \<open>calculateDueDate\<close> (src/src/utils.ts lines 10 to 41, the same text in
  src/unnamed/part_001). The declared result \<open>string | null\<close> is a
  \<open>string option\<close>; a throw is \<open>Inl\<close>; the second component is what the call
  logs.
\<close>

definition calculateDueDate :: "node \<Rightarrow> string option \<Rightarrow> (exn + string option) \<times> effect list" where
  "calculateDueDate nd priority' =
     (let today = Some (Date_now nd);
          (daysToAdd, out) =
             (if priority' = Some ''HIGH'' then (1, [])
              else if priority' = Some ''MEDIUM'' then (3, [])
              else if priority' = Some ''LOW'' then (7, [])
              else if priority' = Some ''NONE'' then (14, [])
              else (7, [Console WARN
                     [Txt (''[calculateDueDate] Unknown or undefined priority: '' @ [CHR 0x22] @
                           show_opt priority' @ [CHR 0x22] @ ''. Defaulting to 7 days.'')]]));
          dueDate = today;
          dueDate = Date_setDate nd dueDate (map_option (\<lambda>d. d + daysToAdd) (Date_getDate nd today))
      in case Date_toISOString dueDate of
           Inl e \<Rightarrow> (Inl e, out)
         | Inr isoString \<Rightarrow> (Inr (Some isoString), out))"

text \<open>
  \<open>crypto.timingSafeEqual(a, b)\<close> throws when the two buffers differ in byte length,
  and compares them otherwise.
\<close>

definition timingSafeEqual :: "string \<Rightarrow> string \<Rightarrow> exn + bool" where
  "timingSafeEqual a b =
     (if length a \<noteq> length b then Inl (RangeError ''Input buffers must have the same byte length'')
      else Inr (a = b))"

text \<open>
  The second segment of \<open>part.split("=")\<close> when \<open>part\<close> is a non-empty string,
  \<open>null\<close> or \<open>undefined\<close> otherwise.
\<close>

definition value_of_part :: "string option \<Rightarrow> string option" where
  "value_of_part part = (if truthy part then at (split CHR ''='' (the part)) 1 else None)"

text \<open>
  \<open>verifyWebhookSignature\<close> (src/unnamed/part_001 lines 53 to 107).
  \<open>parse_header\<close> is its lines 70 to 72, the two values read from the header: the
  first two segments of \<open>signatureHeader.split(",")\<close>, each reduced to its value.
  The last argument is \<open>None\<close> when the caller leaves \<open>toleranceMinutes\<close> out.
\<close>

definition parse_header :: "string \<Rightarrow> string option \<times> string option" where
  "parse_header signatureHeader =
     (let parts = split CHR '','' signatureHeader;
          timestampPart = at parts 0;
          v1SignaturePart = at parts 1;
          timestamp = value_of_part timestampPart;
          signature = value_of_part v1SignaturePart
      in (timestamp, signature))"

definition verifyWebhookSignature ::
  "node \<Rightarrow> string option \<Rightarrow> string option \<Rightarrow> string \<Rightarrow> int option \<Rightarrow> (exn + bool) \<times> effect list"
where
  "verifyWebhookSignature nd signatureHeader rawBody secret toleranceMinutesArg =
     (let toleranceMinutes = (case toleranceMinutesArg of None \<Rightarrow> 5 | Some m \<Rightarrow> m) in
      if \<not> truthy signatureHeader then
        (Inr False, [Console ERROR [Txt ''[verifyWebhookSignature] Signature header is missing.'']])
      else case rawBody of
        None \<Rightarrow>
          (Inr False, [Console ERROR [Txt ''[verifyWebhookSignature] Raw body is missing for verification.'']])
      | Some body \<Rightarrow>
          let (timestamp, signature) = parse_header (the signatureHeader)
          in if \<not> truthy timestamp \<or> \<not> truthy signature then
               (Inr False, [Console ERROR [Txt ''[verifyWebhookSignature] Malformed signature header parts.'']])
             else
               let signedPayload = the timestamp @ ''.'' @ toString_utf8 nd body;
                   expectedSignature = hmac_sha256_hex nd secret signedPayload
               in case timingSafeEqual (the signature) expectedSignature of
                    Inl e \<Rightarrow> (Inl e, [])
                  | Inr isValidSignature \<Rightarrow>
                      let toleranceMs = toleranceMinutes * 60 * 1000;
                          now = Date_now nd;
                          receivedTimestamp = map_option (\<lambda>n. n * 1000) (parseInt (the timestamp));
                          isFresh = (case receivedTimestamp of None \<Rightarrow> False | Some r \<Rightarrow> now - r < toleranceMs);
                          out1 = (if \<not> isValidSignature
                                  then [Console ERROR [Txt ''[verifyWebhookSignature] Signature mismatch.'']]
                                  else [])
                      in if \<not> isFresh then
                           (case Date_toISOString (Date_of_number receivedTimestamp) of
                              Inl e \<Rightarrow> (Inl e, out1)
                            | Inr received \<Rightarrow>
                                (case Date_toISOString (Date_of_number (Some now)) of
                                   Inl e \<Rightarrow> (Inl e, out1)
                                 | Inr nowIso \<Rightarrow>
                                     (Inr (isValidSignature \<and> isFresh),
                                      out1 @ [Console ERROR
                                        [Txt (''[verifyWebhookSignature] Webhook timestamp too old. Received: '' @
                                              received @ '', Now: '' @ nowIso)]])))
                         else (Inr (isValidSignature \<and> isFresh), out1))"


text \<open>The placeholder of the revision under src/src/utils.ts.\<close>

definition verifyWebhookSignature_placeholder ::
  "string option \<Rightarrow> string option \<Rightarrow> string \<Rightarrow> int option \<Rightarrow> (exn + bool) \<times> effect list"
where
  "verifyWebhookSignature_placeholder signatureHeader rawBody secret toleranceMinutesArg = (Inr False, [])"

section \<open>webhookHandler.ts\<close>

text \<open>The environment variables read when the module is loaded.\<close>

record process_env =
  env_MAINTAINX_BASE_URL :: "string option"
  env_MAINTAINX_API_KEY :: "string option"
  env_MAINTAINX_ORG_ID :: "string option"

definition MAINTAINX_BASE_URL :: "process_env \<Rightarrow> string" where
  "MAINTAINX_BASE_URL env = or_else (env_MAINTAINX_BASE_URL env) ''https://api.getmaintainx.com/v1''"

definition MAINTAINX_API_KEY :: "process_env \<Rightarrow> string option" where
  "MAINTAINX_API_KEY env = env_MAINTAINX_API_KEY env"

definition MAINTAINX_ORG_ID :: "process_env \<Rightarrow> string option" where
  "MAINTAINX_ORG_ID env = env_MAINTAINX_ORG_ID env"

text \<open>
  The remote service as axios shows it: what \<open>axios.get(url, {headers})\<close> and
  \<open>axios.patch(url, {dueDate}, {headers})\<close> settle with.
\<close>

record axios =
  axios_get :: "string \<Rightarrow> (string \<times> string) list \<Rightarrow> outcome"
  axios_patch :: "string \<Rightarrow> string \<Rightarrow> (string \<times> string) list \<Rightarrow> outcome"

text \<open>The headers both requests are sent with.\<close>

definition maintainxApiHeaders :: "process_env \<Rightarrow> (string \<times> string) list" where
  "maintainxApiHeaders env =
     [(''Authorization'', ''Bearer '' @ show_opt (MAINTAINX_API_KEY env)),
      (''Content-Type'', ''application/json'')] @
     (if truthy (MAINTAINX_ORG_ID env) then [(''x-organization-id'', the (MAINTAINX_ORG_ID env))] else [])"

text \<open>\<open>error.response ? error.response.data : error.message\<close>\<close>

definition error_detail :: "axios_error \<Rightarrow> arg" where
  "error_detail e = (case error_response e of Some r \<Rightarrow> Dat (data r) | None \<Rightarrow> Txt (message e))"

text \<open>The condition under which the rejection is treated as a rate limit.\<close>

definition is_rate_limited :: "axios_error \<Rightarrow> bool" where
  "is_rate_limited e =
     (isAxiosError e \<and> (case error_response e of None \<Rightarrow> False | Some r \<Rightarrow> status r = 429))"

text \<open>
  The log entries of the update: the warning of a rate limit
  (\<open>headers["x-rate-limit-reset"] || 10\<close>), the three lines of a success, and the error
  of a failure.
\<close>

definition rate_limit_warning :: "axios_error \<Rightarrow> effect" where
  "rate_limit_warning e =
     (let retryAfter = or_else (map_of (headers (the (error_response e))) ''x-rate-limit-reset'') ''10''
      in Console WARN
           [Txt (''[processWebhookEvent] Rate limited. Retrying after '' @ retryAfter @
                 '' seconds. (In production, would queue for retry)'')])"

definition success_logs :: "int \<Rightarrow> response \<Rightarrow> effect list" where
  "success_logs workOrderId' r =
     [Console LOG [Txt (''[processWebhookEvent] Successfully updated Work Order '' @ show_int workOrderId' @
                        ''. Status: '' @ show_int (status r))],
      Console LOG [Txt (''[processWebhookEvent] Rate Limit Remaining: '' @
                        or_else (map_of (headers r) ''x-rate-limit-remaining'') ''N/A'')],
      Console LOG [Txt (''[processWebhookEvent] Rate Limit Reset: '' @
                        or_else (map_of (headers r) ''x-rate-limit-reset'') ''N/A'' @ '' seconds'')]]"

definition update_failed :: "int \<Rightarrow> axios_error \<Rightarrow> effect" where
  "update_failed workOrderId' e =
     Console ERROR
       [Txt (''[processWebhookEvent] Failed to update Work Order '' @ show_int workOrderId' @ '' in MaintainX:''),
        error_detail e]"

text \<open>
  \<open>processWebhookEvent\<close> (src/unnamed/part_001, its lines 127 to 254), the revision
  that fetches the work order when the event does not embed it, in two parts.
  \<open>automateDueDate\<close> is what \<open>processWebhookEvent\<close> does from the point where
  \<open>workOrderDetails\<close> is settled (lines 174 to 253: the defensive check, the priority
  check, the due date and the update); \<open>out\<close> is what the call has done so far. The
  result is how the returned promise settles: \<open>Inr ()\<close> fulfilled, \<open>Inl e\<close>
  rejected. A request is recorded when it is issued, before its outcome is known.
\<close>

definition automateDueDate ::
  "node \<Rightarrow> process_env \<Rightarrow> axios \<Rightarrow> int \<Rightarrow> effect list \<Rightarrow> WorkOrderPayload option \<Rightarrow>
   (exn + unit) \<times> effect list"
where
  "automateDueDate nd env ax wid out workOrderDetails' =
     (case workOrderDetails' of
        None \<Rightarrow>
          (Inr (), out @
             [Console ERROR [Txt (''[processWebhookEvent] Could not obtain Work Order details for WO '' @
                                  show_int wid @ ''. Cannot proceed with automation.'')]])
      | Some workOrderDetails \<Rightarrow>
          let currentPriority = priority workOrderDetails;
              url = MAINTAINX_BASE_URL env @ ''/workorders/'' @ show_int wid
          in if \<not> truthy currentPriority then
               (Inr (), out @
                  [Console LOG [Txt (''[processWebhookEvent] Work Order '' @ show_int wid @
                                     '' has no priority set. Skipping due date automation.'')]])
             else
               (case calculateDueDate nd currentPriority of
                  (Inl e, outc) \<Rightarrow> (Inl e, out @ outc)
                | (Inr calculatedDueDate, outc) \<Rightarrow>
                    if \<not> truthy calculatedDueDate then
                      (Inr (), out @ outc @
                         [Console ERROR [Txt (''[processWebhookEvent] Could not calculate due date for Work Order '' @
                                              show_int wid @ '' with priority '' @ show_opt currentPriority @ ''.'')]])
                    else
                      let out2 = out @ outc @
                            [Console LOG [Txt (''[processWebhookEvent] Calculated new due date for WO '' @ show_int wid @
                                               '' (Priority: '' @ show_opt currentPriority @ ''): '' @
                                               the calculatedDueDate)],
                             Console LOG [Txt ''--- API Key Debug ---''],
                             Console LOG [Txt (''Full MAINTAINX_API_KEY (DEBUG):'' @ show_opt (MAINTAINX_API_KEY env))],
                             Patch url (the calculatedDueDate) (maintainxApiHeaders env)]
                      in (case axios_patch ax url (the calculatedDueDate) (maintainxApiHeaders env) of
                            Resolves r \<Rightarrow> (Inr (), out2 @ success_logs wid r)
                          | Rejects e \<Rightarrow>
                              (Inr (), out2 @ [update_failed wid e] @
                                 (if is_rate_limited e then [rate_limit_warning e] else [])))))"

definition processWebhookEvent ::
  "node \<Rightarrow> process_env \<Rightarrow> axios \<Rightarrow> WorkOrderWebhookPayload \<Rightarrow> (exn + unit) \<times> effect list"
where
  "processWebhookEvent nd env ax payload =
     (let wid = workOrderId payload;
          out0 = [Console LOG [Txt (''[processWebhookEvent] Received payload for WO '' @ show_int wid @ '':''),
                               Txt (JSON_stringify nd payload)]];
          url = MAINTAINX_BASE_URL env @ ''/workorders/'' @ show_int wid
      in case newWorkOrder payload of
           Some w \<Rightarrow> automateDueDate nd env ax wid out0 (Some w)
         | None \<Rightarrow>
             let out1 = out0 @
                   [Console LOG [Txt (''[processWebhookEvent] NewWorkOrder data missing from webhook for WO '' @
                                      show_int wid @ ''. Fetching full Work Order details...'')],
                    Get url (maintainxApiHeaders env)];
                 fetch_failed = (\<lambda>detail.
                   (Inr (), out1 @
                      [Console ERROR
                         [Txt (''[processWebhookEvent] Failed to fetch full details for WO '' @ show_int wid @ '':''),
                          detail]]));
                 fetch_ok = (\<lambda>w.
                   automateDueDate nd env ax wid
                     (out1 @
                        [Console LOG [Txt (''[processWebhookEvent] Successfully fetched full details for WO '' @
                                           show_int wid @ ''.'')]])
                     w)
             in (case axios_get ax url (maintainxApiHeaders env) of
                   Rejects e \<Rightarrow> fetch_failed (error_detail e)
                 | Resolves r \<Rightarrow>
                     (case data r of
                        DataNull \<Rightarrow> fetch_failed (Txt ''Cannot read properties of null (reading 'workOrder')'')
                      | DataUndefined \<Rightarrow>
                          fetch_failed (Txt ''Cannot read properties of undefined (reading 'workOrder')'')
                      | DataText _ \<Rightarrow> fetch_ok None
                      | DataObject w \<Rightarrow> fetch_ok w)))"

text \<open>
  \<open>processWebhookEvent\<close> of the revision under src/src/webhookHandler.ts (lines 20 to
  113), which uses the embedded snapshot only.
\<close>

definition processWebhookEvent_embedded ::
  "node \<Rightarrow> process_env \<Rightarrow> axios \<Rightarrow> WorkOrderWebhookPayload \<Rightarrow> (exn + unit) \<times> effect list"
where
  "processWebhookEvent_embedded nd env ax payload =
     (let wid = workOrderId payload;
          url = MAINTAINX_BASE_URL env @ ''/workorders/'' @ show_int wid
      in case newWorkOrder payload of
           None \<Rightarrow>
             (Inr (),
              [Console LOG [Txt (''[processWebhookEvent] Work Order event for WO '' @ show_int wid @
                                 '' missing newWorkOrder data. Skipping automation.'')]])
         | Some newWorkOrder' \<Rightarrow>
             let currentPriority = priority newWorkOrder' in
             if \<not> truthy currentPriority then
               (Inr (),
                [Console LOG [Txt (''[processWebhookEvent] Work Order '' @ show_int wid @
                                   '' has no priority set. Skipping due date automation.'')]])
             else
               (case calculateDueDate nd currentPriority of
                  (Inl e, outc) \<Rightarrow> (Inl e, outc)
                | (Inr calculatedDueDate, outc) \<Rightarrow>
                    if \<not> truthy calculatedDueDate then
                      (Inr (), outc @
                         [Console ERROR [Txt (''[processWebhookEvent] Could not calculate due date for Work Order '' @
                                              show_int wid @ '' with priority '' @ show_opt currentPriority @ ''.'')]])
                    else
                      let out2 = outc @
                            [Console LOG [Txt (''[processWebhookEvent] Calculated new due date for WO '' @ show_int wid @
                                               '' (Priority: '' @ show_opt currentPriority @ ''): '' @
                                               the calculatedDueDate)],
                             Patch url (the calculatedDueDate) (maintainxApiHeaders env)]
                      in (case axios_patch ax url (the calculatedDueDate) (maintainxApiHeaders env) of
                            Resolves r \<Rightarrow> (Inr (), out2 @ success_logs wid r)
                          | Rejects e \<Rightarrow>
                              (Inr (), out2 @
                                 (if is_rate_limited e then [rate_limit_warning e]
                                  else [update_failed wid e])))))"


section \<open>Notions the properties are stated with\<close>

text \<open>The effects of one kind.\<close>

fun is_console :: "level \<Rightarrow> effect \<Rightarrow> bool" where
  "is_console l (Console l' args) = (l = l')"
| "is_console l (Get url hs) = False"
| "is_console l (Patch url body hs) = False"

fun is_get :: "effect \<Rightarrow> bool" where
  "is_get (Get url hs) = True"
| "is_get (Console l args) = False"
| "is_get (Patch url body hs) = False"

fun is_patch :: "effect \<Rightarrow> bool" where
  "is_patch (Patch url body hs) = True"
| "is_patch (Console l args) = False"
| "is_patch (Get url hs) = False"

text \<open>A string of digits whose decimal value lies between two bounds.\<close>

definition field_in :: "string \<Rightarrow> int \<Rightarrow> int \<Rightarrow> bool" where
  "field_in s lo hi = (list_all is_digit s \<and> lo \<le> dec_value s \<and> dec_value s \<le> hi)"

text \<open>
  An ISO-8601 timestamp in UTC with milliseconds: \<open>YYYY-MM-DDTHH:mm:ss.sssZ\<close>, the
  year of four digits or of a sign and six digits, every field within its range.
\<close>

definition is_iso8601_utc_ms :: "string \<Rightarrow> bool" where
  "is_iso8601_utc_ms s =
     (let n = length s; y = take (n - 20) s; r = drop (n - 20) s
      in 20 \<le> n \<and>
         (length y = 4 \<and> list_all is_digit y \<or>
          length y = 7 \<and> (hd y = CHR ''+'' \<or> hd y = CHR ''-'') \<and> list_all is_digit (tl y)) \<and>
         r ! 0 = CHR ''-'' \<and> field_in (take 2 (drop 1 r)) 1 12 \<and>
         r ! 3 = CHR ''-'' \<and> field_in (take 2 (drop 4 r)) 1 31 \<and>
         r ! 6 = CHR ''T'' \<and> field_in (take 2 (drop 7 r)) 0 23 \<and>
         r ! 9 = CHR '':'' \<and> field_in (take 2 (drop 10 r)) 0 59 \<and>
         r ! 12 = CHR '':'' \<and> field_in (take 2 (drop 13 r)) 0 59 \<and>
         r ! 15 = CHR ''.'' \<and> field_in (take 3 (drop 16 r)) 0 999 \<and>
         r ! 19 = CHR ''Z'')"

section \<open>Example inputs\<close>

text \<open>
  A stand-in for the digest in the examples: 64 hex characters that encode the lengths
  of the key and of the message. The theorems hold for every digest function.
\<close>

definition example_hmac :: "string \<Rightarrow> string \<Rightarrow> string" where
  "example_hmac key msg = pad 64 (1000 * int (length key) + int (length msg))"

text \<open>The clock of the tests, 2024-06-15T12:00:00.000Z, on a host in UTC.\<close>

definition example_node :: node where
  "example_node =
     \<lparr>Date_now = 1718452800000,
      LocalTZA = (\<lambda>t isUTC. 0),
      hmac_sha256_hex = example_hmac,
      toString_utf8 = (\<lambda>buffer. buffer),
      JSON_stringify = (\<lambda>payload. ''{}'')\<rparr>"

definition example_env :: process_env where
  "example_env =
     \<lparr>env_MAINTAINX_BASE_URL = Some ''https://api.testmaintainx.com/v1'',
      env_MAINTAINX_API_KEY = Some ''test_api_key'',
      env_MAINTAINX_ORG_ID = Some ''test_org_id''\<rparr>"

definition example_workOrder :: "string option \<Rightarrow> WorkOrderPayload" where
  "example_workOrder p =
     \<lparr>priority = p, dueDate = None, title = ''Pump'', assetId = None, locationId = None,
      description = None\<rparr>"

definition example_payload :: "WorkOrderPayload option \<Rightarrow> WorkOrderWebhookPayload" where
  "example_payload w =
     \<lparr>workOrderId = 101, orgId = 456, occurredAt = ''2024-06-15T12:00:00.000Z'', newWorkOrder = w\<rparr>"

definition example_rejection :: "int \<Rightarrow> (string \<times> string) list \<Rightarrow> string \<Rightarrow> axios_error" where
  "example_rejection st hs body =
     \<lparr>error_response = Some \<lparr>status = st, headers = hs, data = DataText body\<rparr>,
      message = ''Request failed'', isAxiosError = True\<rparr>"

definition example_axios :: "outcome \<Rightarrow> outcome \<Rightarrow> axios" where
  "example_axios g p = \<lparr>axios_get = (\<lambda>url hs. g), axios_patch = (\<lambda>url body hs. p)\<rparr>"

section \<open>Properties of the signature check\<close>

lemma split_first: "split c s = takeWhile (\<lambda>x. x \<noteq> c) s # (if c \<in> set s then split c (tl (dropWhile (\<lambda>x. x \<noteq> c) s)) else [])"
  by (induction s) (auto split: list.splits)

lemma split_no_sep: "c \<notin> set s \<Longrightarrow> split c s = [s]"
  by (induction s) auto

lemma split_append: "c \<notin> set a \<Longrightarrow> split c (a @ c # b) = a # split c b"
  by (induction a) auto

lemma pad_length [simp]: "length (pad k n) = k"
  by (induction k n rule: pad.induct) auto

lemma parse_header_Nil: "parse_header [] = (None, None)"
  by (simp add: parse_header_def at_def value_of_part_def truthy_def)

lemma parsed_header_nonempty:
  assumes "parse_header hs = (Some ts, v)"
  shows "hs \<noteq> []"
  using assms parse_header_Nil by auto

text \<open>
  Claim C1 says that a header whose digest component differs in byte length from the
  expected digest makes \<open>verifyWebhookSignature\<close> return false without throwing.
  The code does otherwise: whenever the header is present and parses, the body is present
  and the two lengths differ, \<open>crypto.timingSafeEqual\<close> throws a RangeError, which
  leaves \<open>verifyWebhookSignature\<close>, and nothing is logged.
\<close>

theorem verifyWebhookSignature_throws_on_length_mismatch:
  assumes "parse_header hs = (Some ts, Some sig)" and "ts \<noteq> []" and "sig \<noteq> []"
    and "length sig \<noteq> length (hmac_sha256_hex nd secret (ts @ ''.'' @ toString_utf8 nd body))"
  shows "verifyWebhookSignature nd (Some hs) (Some body) secret tol =
           (Inl (RangeError ''Input buffers must have the same byte length''), [])"
proof -
  have "hs \<noteq> []" using assms(1) by (rule parsed_header_nonempty)
  then show ?thesis
    using assms by (simp add: verifyWebhookSignature_def truthy_def timingSafeEqual_def)
qed

text \<open>
  The header \<open>t=1718452800,v1=abc\<close>: a digest of three bytes against one of 64.
\<close>

theorem verifyWebhookSignature_throws_on_length_mismatch_witness:
  "verifyWebhookSignature example_node (Some ''t=1718452800,v1=abc'') (Some ''{}'') ''secret'' None =
     (Inl (RangeError ''Input buffers must have the same byte length''), [])"
proof -
  have p: "parse_header ''t=1718452800,v1=abc'' = (Some ''1718452800'', Some ''abc'')"
    by (simp add: parse_header_def at_def value_of_part_def truthy_def)
  have l: "length ''abc'' \<noteq> length (hmac_sha256_hex example_node ''secret'' (''1718452800'' @ ''.'' @ toString_utf8 example_node ''{}''))"
    by (simp add: example_node_def example_hmac_def)
  show ?thesis
    using verifyWebhookSignature_throws_on_length_mismatch[OF p _ _ l] by simp
qed



lemma takeWhile_until: "c \<notin> set a \<Longrightarrow> takeWhile (\<lambda>x. x \<noteq> c) (a @ c # b) = a"
  by (induction a) auto

lemma dropWhile_until: "c \<notin> set a \<Longrightarrow> dropWhile (\<lambda>x. x \<noteq> c) (a @ c # b) = c # b"
  by (induction a) auto

lemma takeWhile_all: "c \<notin> set a \<Longrightarrow> takeWhile (\<lambda>x. x \<noteq> c) a = a"
  by (induction a) auto

lemma value_of_part_Some:
  "value_of_part (Some seg) =
     (if CHR ''='' \<in> set seg
      then Some (takeWhile (\<lambda>c. c \<noteq> CHR ''='') (tl (dropWhile (\<lambda>c. c \<noteq> CHR ''='') seg)))
      else None)"
proof (cases "seg = []")
  case True
  then show ?thesis by (simp add: value_of_part_def truthy_def)
next
  case False
  let ?r = "tl (dropWhile (\<lambda>c. c \<noteq> CHR ''='') seg)"
  show ?thesis
  proof (cases "CHR ''='' \<in> set seg")
    case True
    then have "split CHR ''='' seg = takeWhile (\<lambda>c. c \<noteq> CHR ''='') seg # split CHR ''='' ?r"
      using split_first[of "CHR ''=''" seg] by simp
    also have "split CHR ''='' ?r = takeWhile (\<lambda>c. c \<noteq> CHR ''='') ?r #
        (if CHR ''='' \<in> set ?r then split CHR ''='' (tl (dropWhile (\<lambda>c. c \<noteq> CHR ''='') ?r)) else [])"
      by (rule split_first)
    finally show ?thesis using True False
      by (simp add: value_of_part_def truthy_def at_def)
  next
    case no: False
    then show ?thesis using False
      by (simp add: value_of_part_def truthy_def at_def split_no_sep)
  qed
qed

lemma value_of_part_None [simp]: "value_of_part None = None"
  by (simp add: value_of_part_def truthy_def)

lemma parse_header_positional:
  "parse_header h =
     (let seg0 = takeWhile (\<lambda>c. c \<noteq> CHR '','') h;
          rest = dropWhile (\<lambda>c. c \<noteq> CHR '','') h;
          seg1 = takeWhile (\<lambda>c. c \<noteq> CHR '','') (tl rest)
      in (value_of_part (Some seg0), if rest = [] then None else value_of_part (Some seg1)))"
proof (cases "CHR '','' \<in> set h")
  case True
  let ?r = "tl (dropWhile (\<lambda>c. c \<noteq> CHR '','') h)"
  have "split CHR '','' h = takeWhile (\<lambda>c. c \<noteq> CHR '','') h # split CHR '','' ?r"
    using True split_first[of "CHR '',''" h] by simp
  also have "split CHR '','' ?r = takeWhile (\<lambda>c. c \<noteq> CHR '','') ?r #
      (if CHR '','' \<in> set ?r then split CHR '','' (tl (dropWhile (\<lambda>c. c \<noteq> CHR '','') ?r)) else [])"
    by (rule split_first)
  finally have "parse_header h =
      (value_of_part (Some (takeWhile (\<lambda>c. c \<noteq> CHR '','') h)),
       value_of_part (Some (takeWhile (\<lambda>c. c \<noteq> CHR '','') ?r)))"
    by (simp add: parse_header_def at_def)
  moreover have "dropWhile (\<lambda>c. c \<noteq> CHR '','') h \<noteq> []" using True by simp
  ultimately show ?thesis by (simp only: Let_def if_False)
next
  case False
  then have d: "dropWhile (\<lambda>c. c \<noteq> CHR '','') h = []" by auto
  have t: "takeWhile (\<lambda>c. c \<noteq> CHR '','') h = h" using False by (rule takeWhile_all)
  have "parse_header h = (value_of_part (Some h), None)"
    using False by (simp add: parse_header_def at_def split_no_sep)
  then show ?thesis by (simp add: Let_def d t)
qed

lemma value_of_part_pair:
  assumes "CHR ''='' \<notin> set k" and "CHR ''='' \<notin> set v"
  shows "value_of_part (Some (k @ CHR ''='' # v)) = Some v"
  using assms by (simp add: value_of_part_Some dropWhile_until takeWhile_all)

lemma parse_header_two_pairs:
  assumes "CHR '','' \<notin> set (k1 @ v1 @ k2 @ v2)" and "CHR ''='' \<notin> set (k1 @ v1 @ k2 @ v2)"
    and "extra = [] \<or> hd extra = CHR '',''"
  shows "parse_header (k1 @ CHR ''='' # v1 @ CHR '','' # k2 @ CHR ''='' # v2 @ extra) = (Some v1, Some v2)"
proof -
  let ?a = "k1 @ CHR ''='' # v1"
  let ?b = "k2 @ CHR ''='' # v2"
  have a: "CHR '','' \<notin> set ?a" and b: "CHR '','' \<notin> set ?b" using assms(1) by auto
  have h: "k1 @ CHR ''='' # v1 @ CHR '','' # k2 @ CHR ''='' # v2 @ extra = ?a @ CHR '','' # (?b @ extra)" by simp
  have t0: "takeWhile (\<lambda>c. c \<noteq> CHR '','') (?a @ CHR '','' # (?b @ extra)) = ?a"
    using a by (rule takeWhile_until)
  have d0: "dropWhile (\<lambda>c. c \<noteq> CHR '','') (?a @ CHR '','' # (?b @ extra)) = CHR '','' # (?b @ extra)"
    using a by (rule dropWhile_until)
  have t1: "takeWhile (\<lambda>c. c \<noteq> CHR '','') (?b @ extra) = ?b"
  proof (cases extra)
    case Nil
    then show ?thesis using b takeWhile_all[of "CHR '',''" ?b] by simp
  next
    case (Cons m ms)
    then have "m = CHR '',''" using assms(3) by simp
    then show ?thesis using b Cons takeWhile_until[of "CHR '',''" ?b ms] by simp
  qed
  have v0: "value_of_part (Some ?a) = Some v1" using assms(2) by (intro value_of_part_pair) auto
  have v1: "value_of_part (Some ?b) = Some v2" using assms(2) by (intro value_of_part_pair) auto
  show ?thesis
    unfolding h parse_header_positional[of "?a @ CHR '','' # (?b @ extra)"] t0 d0
    using t1 v0 v1 by (simp add: Let_def)
qed

lemma verifyWebhookSignature_parsed:
  assumes "parse_header hs = (Some ts, Some sig)" and "ts \<noteq> []" and "sig \<noteq> []"
    and "sig = hmac_sha256_hex nd secret (ts @ ''.'' @ toString_utf8 nd body)"
    and "parseInt ts = Some t"
  shows "fst (verifyWebhookSignature nd (Some hs) (Some body) secret tol) =
           (if Date_now nd - t * 1000 < (case tol of None \<Rightarrow> 5 | Some m \<Rightarrow> m) * 60 * 1000 then Inr True
            else case Date_toISOString (TimeClip (t * 1000)) of
                   Inl e \<Rightarrow> Inl e
                 | Inr r \<Rightarrow> (case Date_toISOString (TimeClip (Date_now nd)) of
                              Inl e \<Rightarrow> Inl e | Inr n \<Rightarrow> Inr False))"
proof -
  have "hs \<noteq> []" using assms(1) by (rule parsed_header_nonempty)
  then show ?thesis
    using assms
    by (simp add: verifyWebhookSignature_def truthy_def timingSafeEqual_def Date_of_number_def
        split: sum.splits)
qed

text \<open>
  Claim C3. For a header whose digest is the expected one and whose timestamp
  \<open>parseInt\<close> reads as \<open>t\<close> seconds, \<open>verifyWebhookSignature\<close> returns
  true exactly when \<open>now - t * 1000 < toleranceMinutes * 60 * 1000\<close>, strictly, and the
  default tolerance is 5 minutes. So a timestamp in the future is accepted under any
  tolerance that is not negative, and a timestamp at or beyond the tolerance is never
  accepted: the call returns false whenever both instants are valid dates.
\<close>

theorem verifyWebhookSignature_freshness:
  assumes "parse_header hs = (Some ts, Some sig)" and "ts \<noteq> []" and "sig \<noteq> []"
    and "sig = hmac_sha256_hex nd secret (ts @ ''.'' @ toString_utf8 nd body)"
    and "parseInt ts = Some t"
  shows "((fst (verifyWebhookSignature nd (Some hs) (Some body) secret (Some m)) = Inr True) =
            (Date_now nd - t * 1000 < m * 60 * 1000))
       \<and> (Date_now nd < t * 1000 \<and> 0 \<le> m \<longrightarrow>
            fst (verifyWebhookSignature nd (Some hs) (Some body) secret (Some m)) = Inr True)
       \<and> (m * 60 * 1000 \<le> Date_now nd - t * 1000 \<longrightarrow>
            fst (verifyWebhookSignature nd (Some hs) (Some body) secret (Some m)) \<noteq> Inr True)
       \<and> (m * 60 * 1000 \<le> Date_now nd - t * 1000 \<and> \<bar>t * 1000\<bar> \<le> maxTime \<and> \<bar>Date_now nd\<bar> \<le> maxTime \<longrightarrow>
            fst (verifyWebhookSignature nd (Some hs) (Some body) secret (Some m)) = Inr False)
       \<and> ((fst (verifyWebhookSignature nd (Some hs) (Some body) secret None) = Inr True) =
            (Date_now nd - t * 1000 < 5 * 60 * 1000))"
  unfolding verifyWebhookSignature_parsed[OF assms]
  by (auto simp: Date_toISOString_def TimeClip_def split: sum.splits option.splits)

lemma verifyWebhookSignature_true_iff:
  "(fst (verifyWebhookSignature nd h b secret tol) = Inr True) =
     (\<exists>hs body ts sig t. h = Some hs \<and> b = Some body \<and> parse_header hs = (Some ts, Some sig) \<and>
        ts \<noteq> [] \<and> sig \<noteq> [] \<and> sig = hmac_sha256_hex nd secret (ts @ ''.'' @ toString_utf8 nd body) \<and>
        parseInt ts = Some t \<and>
        Date_now nd - t * 1000 < (case tol of None \<Rightarrow> 5 | Some m \<Rightarrow> m) * 60 * 1000)"
  by (auto simp: verifyWebhookSignature_def truthy_def timingSafeEqual_def Let_def parse_header_Nil
      split: option.splits sum.splits if_splits prod.splits)

text \<open>
  With the clock at 2024-06-15T12:00:00Z and a tolerance of 5 minutes: a timestamp two
  minutes old and one two hours ahead are accepted, one ten minutes old is rejected.
\<close>

theorem verifyWebhookSignature_freshness_witness:
  "fst (verifyWebhookSignature example_node
          (Some (''t=1718452680,v1='' @ example_hmac ''secret'' ''1718452680.{}'')) (Some ''{}'') ''secret'' (Some 5)) = Inr True
   \<and> fst (verifyWebhookSignature example_node
          (Some (''t=1718459999,v1='' @ example_hmac ''secret'' ''1718459999.{}'')) (Some ''{}'') ''secret'' (Some 5)) = Inr True
   \<and> fst (verifyWebhookSignature example_node
          (Some (''t=1718452200,v1='' @ example_hmac ''secret'' ''1718452200.{}'')) (Some ''{}'') ''secret'' (Some 5)) = Inr False"
proof -
  have d: "example_hmac ''secret'' ''1718452680.{}'' = hmac_sha256_hex example_node ''secret'' (''1718452680'' @ ''.'' @ toString_utf8 example_node ''{}'')"
    "example_hmac ''secret'' ''1718459999.{}'' = hmac_sha256_hex example_node ''secret'' (''1718459999'' @ ''.'' @ toString_utf8 example_node ''{}'')"
    "example_hmac ''secret'' ''1718452200.{}'' = hmac_sha256_hex example_node ''secret'' (''1718452200'' @ ''.'' @ toString_utf8 example_node ''{}'')"
    by (simp_all add: example_node_def)
  have n: "example_hmac ''secret'' ''1718452680.{}'' \<noteq> []"
    "example_hmac ''secret'' ''1718459999.{}'' \<noteq> []"
    "example_hmac ''secret'' ''1718452200.{}'' \<noteq> []"
    by code_simp+
  have p1: "parse_header (''t=1718452680,v1='' @ example_hmac ''secret'' ''1718452680.{}'') =
             (Some ''1718452680'', Some (example_hmac ''secret'' ''1718452680.{}''))"
    by code_simp
  have p2: "parse_header (''t=1718459999,v1='' @ example_hmac ''secret'' ''1718459999.{}'') =
             (Some ''1718459999'', Some (example_hmac ''secret'' ''1718459999.{}''))"
    by code_simp
  have p3: "parse_header (''t=1718452200,v1='' @ example_hmac ''secret'' ''1718452200.{}'') =
             (Some ''1718452200'', Some (example_hmac ''secret'' ''1718452200.{}''))"
    by code_simp
  have i: "parseInt ''1718452680'' = Some 1718452680" "parseInt ''1718459999'' = Some 1718459999"
    "parseInt ''1718452200'' = Some 1718452200"
    by code_simp+
  have now: "Date_now example_node = 1718452800000" by (simp add: example_node_def)
  note t1 = verifyWebhookSignature_freshness[OF p1 _ n(1) d(1) i(1), of 5]
  note t2 = verifyWebhookSignature_freshness[OF p2 _ n(2) d(2) i(2), of 5]
  note t3 = verifyWebhookSignature_freshness[OF p3 _ n(3) d(3) i(3), of 5]
  show ?thesis using t1 t2 t3 by (simp add: now maxTime_def)
qed

text \<open>
  Claim C2 says that \<open>verifyWebhookSignature\<close> returns false in every case in which it
  does not return true. By \<open>verifyWebhookSignature_true_iff\<close> it returns true exactly
  under the conditions of the claim, but there are cases in which it throws instead of
  returning false. Besides the digest of another length, this is one: the header parses,
  the digest has the length of the expected one (it may be the expected one), and the
  timestamp is not a number, or is stale and beyond the range of Date. Then the log
  message of the stale timestamp calls \<open>toISOString\<close> on an invalid date, which
  throws a RangeError.
\<close>

theorem verifyWebhookSignature_throws_where_false_is_claimed:
  assumes "parse_header hs = (Some ts, Some sig)" and "ts \<noteq> []" and "sig \<noteq> []"
    and "length sig = length (hmac_sha256_hex nd secret (ts @ ''.'' @ toString_utf8 nd body))"
    and "parseInt ts = None \<or>
         (\<exists>t. parseInt ts = Some t \<and> maxTime < \<bar>t * 1000\<bar> \<and>
              \<not> Date_now nd - t * 1000 < (case tol of None \<Rightarrow> 5 | Some m \<Rightarrow> m) * 60 * 1000)"
  shows "fst (verifyWebhookSignature nd (Some hs) (Some body) secret tol) = Inl (RangeError ''Invalid time value'')"
proof -
  have "hs \<noteq> []" using assms(1) by (rule parsed_header_nonempty)
  then show ?thesis
    using assms
    by (auto simp: verifyWebhookSignature_def truthy_def timingSafeEqual_def Date_of_number_def
        Date_toISOString_def TimeClip_def)
qed

text \<open>
  Two correctly signed headers: the timestamp \<open>soon\<close>, and a timestamp of
  \<open>-9000000000000\<close> seconds, before the first valid date.
\<close>

theorem verifyWebhookSignature_throws_where_false_is_claimed_witness:
  "fst (verifyWebhookSignature example_node
          (Some (''t=soon,v1='' @ example_hmac ''secret'' ''soon.{}'')) (Some ''{}'') ''secret'' None)
     = Inl (RangeError ''Invalid time value'')
   \<and> fst (verifyWebhookSignature example_node
          (Some (''t=-9000000000000,v1='' @ example_hmac ''secret'' ''-9000000000000.{}'')) (Some ''{}'') ''secret'' None)
     = Inl (RangeError ''Invalid time value'')"
proof -
  have p1: "parse_header (''t=soon,v1='' @ example_hmac ''secret'' ''soon.{}'') =
      (Some ''soon'', Some (example_hmac ''secret'' ''soon.{}''))"
    by code_simp
  have p2: "parse_header (''t=-9000000000000,v1='' @ example_hmac ''secret'' ''-9000000000000.{}'') =
      (Some ''-9000000000000'', Some (example_hmac ''secret'' ''-9000000000000.{}''))"
    by code_simp
  have n: "example_hmac ''secret'' ''soon.{}'' \<noteq> []" "example_hmac ''secret'' ''-9000000000000.{}'' \<noteq> []"
    by code_simp+
  have l: "length (example_hmac ''secret'' ''soon.{}'') =
      length (hmac_sha256_hex example_node ''secret'' (''soon'' @ ''.'' @ toString_utf8 example_node ''{}''))"
    "length (example_hmac ''secret'' ''-9000000000000.{}'') =
      length (hmac_sha256_hex example_node ''secret'' (''-9000000000000'' @ ''.'' @ toString_utf8 example_node ''{}''))"
    by (simp_all add: example_node_def)
  have i1: "parseInt ''soon'' = None" by code_simp
  have i2: "parseInt ''-9000000000000'' = Some (- 9000000000000)" by code_simp
  have f: "maxTime < \<bar>- 9000000000000 * 1000\<bar> \<and>
      \<not> Date_now example_node - (- 9000000000000) * 1000 < (case None of None \<Rightarrow> 5 | Some m \<Rightarrow> m) * 60 * 1000"
    by (simp add: maxTime_def example_node_def)
  have c1: "fst (verifyWebhookSignature example_node
          (Some (''t=soon,v1='' @ example_hmac ''secret'' ''soon.{}'')) (Some ''{}'') ''secret'' None)
     = Inl (RangeError ''Invalid time value'')"
    using verifyWebhookSignature_throws_where_false_is_claimed[OF p1 _ n(1) l(1), of None] i1 by simp
  have c2: "fst (verifyWebhookSignature example_node
          (Some (''t=-9000000000000,v1='' @ example_hmac ''secret'' ''-9000000000000.{}'')) (Some ''{}'') ''secret'' None)
     = Inl (RangeError ''Invalid time value'')"
    using verifyWebhookSignature_throws_where_false_is_claimed[OF p2 _ n(2) l(2), of None] i2 f by simp
  show ?thesis using c1 c2 by blast
qed

text \<open>
  Claim C10, amended. The header is read by position and the key names are never looked
  at: the timestamp comes from the first comma-separated segment and the digest from the
  second, further segments are ignored, and the value of a segment is the text between
  its first \<open>=\<close> and its next \<open>=\<close> or its end (not all the text after the first
  \<open>=\<close>); a segment without \<open>=\<close> has no value. Two headers with the same two
  values verify alike. Hence a header \<open>k1=<seconds>,k2=<digest>\<close> with any key names,
  followed or not by further segments, verifies when the digest is the expected one and
  the timestamp is fresh, and the swapped header \<open>v1=<digest>,t=<seconds>\<close> yields the
  digest as timestamp and the seconds as digest.
\<close>

theorem parse_header_positional_by_split:
  "parse_header h =
     (let seg0 = takeWhile (\<lambda>c. c \<noteq> CHR '','') h;
          rest = dropWhile (\<lambda>c. c \<noteq> CHR '','') h;
          seg1 = takeWhile (\<lambda>c. c \<noteq> CHR '','') (tl rest);
          val = (\<lambda>seg. if CHR ''='' \<in> set seg
                       then Some (takeWhile (\<lambda>c. c \<noteq> CHR ''='') (tl (dropWhile (\<lambda>c. c \<noteq> CHR ''='') seg)))
                       else None)
      in (val seg0, if rest = [] then None else val seg1))
   \<and> (h \<noteq> [] \<and> h' \<noteq> [] \<and> parse_header h = parse_header h' \<longrightarrow>
        verifyWebhookSignature nd (Some h) b secret tol = verifyWebhookSignature nd (Some h') b secret tol)
   \<and> (CHR '','' \<notin> set (k1 @ ts @ k2 @ sig) \<and> CHR ''='' \<notin> set (k1 @ ts @ k2 @ sig) \<and>
        (extra = [] \<or> hd extra = CHR '','') \<longrightarrow>
        parse_header (k1 @ ''='' @ ts @ '','' @ k2 @ ''='' @ sig @ extra) = (Some ts, Some sig))
   \<and> (CHR '','' \<notin> set (k1 @ ts @ k2 @ sig) \<and> CHR ''='' \<notin> set (k1 @ ts @ k2 @ sig) \<and>
        (extra = [] \<or> hd extra = CHR '','') \<and> ts \<noteq> [] \<and> sig \<noteq> [] \<and>
        sig = hmac_sha256_hex nd secret (ts @ ''.'' @ toString_utf8 nd body) \<and>
        parseInt ts = Some t \<and>
        Date_now nd - t * 1000 < (case tol of None \<Rightarrow> 5 | Some m \<Rightarrow> m) * 60 * 1000 \<longrightarrow>
        fst (verifyWebhookSignature nd (Some (k1 @ ''='' @ ts @ '','' @ k2 @ ''='' @ sig @ extra)) (Some body) secret tol)
          = Inr True)
   \<and> (CHR '','' \<notin> set (sig @ ts) \<and> CHR ''='' \<notin> set (sig @ ts) \<longrightarrow>
        parse_header (''v1='' @ sig @ '',t='' @ ts) = (Some sig, Some ts))"
proof (intro conjI impI)
  show "parse_header h =
     (let seg0 = takeWhile (\<lambda>c. c \<noteq> CHR '','') h;
          rest = dropWhile (\<lambda>c. c \<noteq> CHR '','') h;
          seg1 = takeWhile (\<lambda>c. c \<noteq> CHR '','') (tl rest);
          val = (\<lambda>seg. if CHR ''='' \<in> set seg
                       then Some (takeWhile (\<lambda>c. c \<noteq> CHR ''='') (tl (dropWhile (\<lambda>c. c \<noteq> CHR ''='') seg)))
                       else None)
      in (val seg0, if rest = [] then None else val seg1))"
    by (auto simp: parse_header_positional value_of_part_Some Let_def)
next
  assume "h \<noteq> [] \<and> h' \<noteq> [] \<and> parse_header h = parse_header h'"
  then show "verifyWebhookSignature nd (Some h) b secret tol = verifyWebhookSignature nd (Some h') b secret tol"
    by (cases b) (simp_all add: verifyWebhookSignature_def truthy_def)
next
  assume a: "CHR '','' \<notin> set (k1 @ ts @ k2 @ sig) \<and> CHR ''='' \<notin> set (k1 @ ts @ k2 @ sig) \<and>
        (extra = [] \<or> hd extra = CHR '','')"
  then show "parse_header (k1 @ ''='' @ ts @ '','' @ k2 @ ''='' @ sig @ extra) = (Some ts, Some sig)"
    using parse_header_two_pairs[of k1 ts k2 sig extra] by simp
next
  assume a: "CHR '','' \<notin> set (k1 @ ts @ k2 @ sig) \<and> CHR ''='' \<notin> set (k1 @ ts @ k2 @ sig) \<and>
        (extra = [] \<or> hd extra = CHR '','') \<and> ts \<noteq> [] \<and> sig \<noteq> [] \<and>
        sig = hmac_sha256_hex nd secret (ts @ ''.'' @ toString_utf8 nd body) \<and>
        parseInt ts = Some t \<and>
        Date_now nd - t * 1000 < (case tol of None \<Rightarrow> 5 | Some m \<Rightarrow> m) * 60 * 1000"
  then have s1: "CHR '','' \<notin> set (k1 @ ts @ k2 @ sig)" and s2: "CHR ''='' \<notin> set (k1 @ ts @ k2 @ sig)"
    and s3: "extra = [] \<or> hd extra = CHR '',''" and n1: "ts \<noteq> []" and n2: "sig \<noteq> []"
    and v: "sig = hmac_sha256_hex nd secret (ts @ ''.'' @ toString_utf8 nd body)"
    and i: "parseInt ts = Some t"
    and f: "Date_now nd - t * 1000 < (case tol of None \<Rightarrow> 5 | Some m \<Rightarrow> m) * 60 * 1000"
    by blast+
  have "parse_header (k1 @ CHR ''='' # ts @ CHR '','' # k2 @ CHR ''='' # sig @ extra) = (Some ts, Some sig)"
    using s1 s2 s3 by (rule parse_header_two_pairs)
  then have p: "parse_header (k1 @ ''='' @ ts @ '','' @ k2 @ ''='' @ sig @ extra) = (Some ts, Some sig)"
    by simp
  show "fst (verifyWebhookSignature nd (Some (k1 @ ''='' @ ts @ '','' @ k2 @ ''='' @ sig @ extra)) (Some body) secret tol)
          = Inr True"
    unfolding verifyWebhookSignature_parsed[OF p n1 n2 v i] using f by simp
next
  assume "CHR '','' \<notin> set (sig @ ts) \<and> CHR ''='' \<notin> set (sig @ ts)"
  then show "parse_header (''v1='' @ sig @ '',t='' @ ts) = (Some sig, Some ts)"
    using parse_header_two_pairs[of "''v1''" sig "''t''" ts "[]"] by simp
qed

text \<open>
  Instances: a second segment with two \<open>=\<close> and a third segment; the keys
  \<open>foo\<close> and \<open>bar\<close>; the swapped header.
\<close>

theorem parse_header_positional_by_split_witness:
  "parse_header ''t=1718452800,v1=ab=cd,v2=ef'' = (Some ''1718452800'', Some ''ab'')
   \<and> verifyWebhookSignature example_node (Some ''foo=12,bar=ab'') (Some ''{}'') ''secret'' None
       = verifyWebhookSignature example_node (Some ''t=12,v1=ab'') (Some ''{}'') ''secret'' None
   \<and> parse_header (''foo'' @ ''='' @ ''1718452800'' @ '','' @ ''bar'' @ ''='' @ ''cafe'' @ [])
        = (Some ''1718452800'', Some ''cafe'')
   \<and> fst (verifyWebhookSignature example_node
          (Some (''foo'' @ ''='' @ ''1718452800'' @ '','' @ ''bar'' @ ''='' @ example_hmac ''secret'' ''1718452800.{}'' @ []))
          (Some ''{}'') ''secret'' None) = Inr True
   \<and> parse_header (''v1='' @ ''cafe'' @ '',t='' @ ''1718452800'') = (Some ''cafe'', Some ''1718452800'')"
proof -
  note T = parse_header_positional_by_split
  have c1: "parse_header ''t=1718452800,v1=ab=cd,v2=ef'' = (Some ''1718452800'', Some ''ab'')"
    using T[where h = "''t=1718452800,v1=ab=cd,v2=ef''"] by (simp add: Let_def)
  have e: "parse_header ''foo=12,bar=ab'' = parse_header ''t=12,v1=ab''" by code_simp
  have c2: "verifyWebhookSignature example_node (Some ''foo=12,bar=ab'') (Some ''{}'') ''secret'' None
       = verifyWebhookSignature example_node (Some ''t=12,v1=ab'') (Some ''{}'') ''secret'' None"
    using T[where h = "''foo=12,bar=ab''" and h' = "''t=12,v1=ab''" and nd = example_node and b = "Some ''{}''"
          and secret = "''secret''" and tol = None] e by simp
  have c3: "parse_header (''foo'' @ ''='' @ ''1718452800'' @ '','' @ ''bar'' @ ''='' @ ''cafe'' @ [])
        = (Some ''1718452800'', Some ''cafe'')"
    using T[where ?k1.0 = "''foo''" and ts = "''1718452800''" and ?k2.0 = "''bar''" and sig = "''cafe''" and extra = "[]"]
    by simp
  have d: "example_hmac ''secret'' ''1718452800.{}'' = ''0000000000000000000000000000000000000000000000000000000000006013''"
    by code_simp
  have i: "parseInt ''1718452800'' = Some 1718452800" by code_simp
  have c4: "fst (verifyWebhookSignature example_node
          (Some (''foo'' @ ''='' @ ''1718452800'' @ '','' @ ''bar'' @ ''='' @ example_hmac ''secret'' ''1718452800.{}'' @ []))
          (Some ''{}'') ''secret'' None) = Inr True"
    using T[where ?k1.0 = "''foo''" and ts = "''1718452800''" and ?k2.0 = "''bar''"
          and sig = "example_hmac ''secret'' ''1718452800.{}''" and extra = "[]" and nd = example_node
          and secret = "''secret''" and body = "''{}''" and t = 1718452800 and tol = None] i
    unfolding d by (simp add: example_node_def d)
  have c5: "parse_header (''v1='' @ ''cafe'' @ '',t='' @ ''1718452800'') = (Some ''cafe'', Some ''1718452800'')"
    using T[where sig = "''cafe''" and ts = "''1718452800''"] by simp
  show ?thesis using c1 c2 c3 c4 c5 by blast
qed

text \<open>
  Claim C10 as stated fails where a segment has a second \<open>=\<close>: in
  \<open>t=1=2,v1=ab\<close> the text after the first \<open>=\<close> of the first segment is
  \<open>1=2\<close>, the timestamp read is \<open>1\<close>. Accordingly the header
  \<open>t=1718452800=9,v1=<digest>\<close> verifies with the digest of
  \<open>1718452800.{}\<close>, which is not the digest of \<open>1718452800=9.{}\<close>.
\<close>

theorem parse_header_value_stops_at_second_equals:
  "fst (parse_header ''t=1=2,v1=ab'') = Some ''1''
   \<and> tl (dropWhile (\<lambda>c. c \<noteq> CHR ''='') (takeWhile (\<lambda>c. c \<noteq> CHR '','') ''t=1=2,v1=ab'')) = ''1=2''
   \<and> fst (verifyWebhookSignature example_node
          (Some (''t=1718452800=9,v1='' @ example_hmac ''secret'' ''1718452800.{}'')) (Some ''{}'') ''secret'' None) = Inr True
   \<and> example_hmac ''secret'' ''1718452800=9.{}'' \<noteq> example_hmac ''secret'' ''1718452800.{}''"
  by code_simp

text \<open>
  The six unit tests of the repository for \<open>verifyWebhookSignature\<close>, with the body
  \<open>{}\<close>: a valid signature, a missing header, a missing body, a digest altered in its
  first character, a timestamp ten minutes old and one two minutes old.
\<close>

lemma verifyWebhookSignature_unit_tests:
  "verifyWebhookSignature example_node
     (Some (''t=1718452800,v1='' @ example_hmac ''test_secret_123'' ''1718452800.{}'')) (Some ''{}'')
     ''test_secret_123'' None = (Inr True, [])"
  "verifyWebhookSignature example_node None (Some ''{}'') ''test_secret_123'' None =
     (Inr False, [Console ERROR [Txt ''[verifyWebhookSignature] Signature header is missing.'']])"
  "verifyWebhookSignature example_node
     (Some (''t=1718452800,v1='' @ example_hmac ''test_secret_123'' ''1718452800.{}'')) None
     ''test_secret_123'' None =
     (Inr False, [Console ERROR [Txt ''[verifyWebhookSignature] Raw body is missing for verification.'']])"
  "verifyWebhookSignature example_node
     (Some (''t=1718452800,v1='' @ CHR ''a'' # tl (example_hmac ''test_secret_123'' ''1718452800.{}''))) (Some ''{}'')
     ''test_secret_123'' None =
     (Inr False, [Console ERROR [Txt ''[verifyWebhookSignature] Signature mismatch.'']])"
  "verifyWebhookSignature example_node
     (Some (''t=1718452200,v1='' @ example_hmac ''test_secret_123'' ''1718452200.{}'')) (Some ''{}'')
     ''test_secret_123'' (Some 5) =
     (Inr False,
      [Console ERROR [Txt ''[verifyWebhookSignature] Webhook timestamp too old. Received: 2024-06-15T11:50:00.000Z, Now: 2024-06-15T12:00:00.000Z'']])"
  "verifyWebhookSignature example_node
     (Some (''t=1718452680,v1='' @ example_hmac ''test_secret_123'' ''1718452680.{}'')) (Some ''{}'')
     ''test_secret_123'' (Some 5) = (Inr True, [])"
  by code_simp+

text \<open>The placeholder of the revision under src/src never accepts.\<close>

lemma verifyWebhookSignature_placeholder_false:
  "fst (verifyWebhookSignature_placeholder signatureHeader rawBody secret tol) = Inr False"
  by (simp add: verifyWebhookSignature_placeholder_def)

section \<open>Properties of the calendar\<close>

lemma div_bounds:
  fixes a k :: int
  assumes "0 < k"
  shows "k * (a div k) \<le> a" and "a < k * (a div k) + k"
proof -
  have e: "k * (a div k) + a mod k = a" by simp
  have "0 \<le> a mod k" "a mod k < k" using assms by simp_all
  with e show "k * (a div k) \<le> a" and "a < k * (a div k) + k" by linarith+
qed

lemma div_succ:
  fixes n k :: int
  assumes k: "0 < k"
  shows "(n + 1) div k = n div k + (if (n + 1) mod k = 0 then 1 else 0)"
proof -
  define q where "q = n div k"
  define r where "r = n mod k"
  have e: "n = k * q + r" by (simp add: q_def r_def)
  have r: "0 \<le> r" "r < k" using k by (simp_all add: r_def)
  show ?thesis
  proof (cases "r = k - 1")
    case True
    then have "n + 1 = k * (q + 1) + 0" using e by (simp add: algebra_simps)
    then have "(n + 1) div k = q + 1" "(n + 1) mod k = 0"
      using k int_div_pos_eq[of "n + 1" k "q + 1" 0] int_mod_pos_eq[of "n + 1" k "q + 1" 0] by simp_all
    then show ?thesis by (simp add: q_def)
  next
    case False
    then have b: "0 \<le> r + 1" "r + 1 < k" using r by linarith+
    have "n + 1 = k * q + (r + 1)" using e by simp
    then have "(n + 1) div k = q" "(n + 1) mod k = r + 1"
      using b int_div_pos_eq[of "n + 1" k q "r + 1"] int_mod_pos_eq[of "n + 1" k q "r + 1"] by simp_all
    then show ?thesis using r by (simp add: q_def)
  qed
qed

lemma mod_shift: "((y::int) - k * c) mod k = y mod k"
proof -
  have "y - k * c = y + k * (- c)" by simp
  then show ?thesis by (simp only: mod_mult_self2)
qed

lemma DayFromYear_step: "DayFromYear (y + 1) = DayFromYear y + DaysInYear y"
proof -
  have a: "(y + 1 - 1969) div 4 = (y - 1969) div 4 + (if y mod 4 = 0 then 1 else 0)"
    using div_succ[of 4 "y - 1969"] mod_shift[of y 4 492] by (simp add: algebra_simps)
  have b: "(y + 1 - 1901) div 100 = (y - 1901) div 100 + (if y mod 100 = 0 then 1 else 0)"
    using div_succ[of 100 "y - 1901"] mod_shift[of y 100 19] by (simp add: algebra_simps)
  have c: "(y + 1 - 1601) div 400 = (y - 1601) div 400 + (if y mod 400 = 0 then 1 else 0)"
    using div_succ[of 400 "y - 1601"] mod_shift[of y 400 4] by (simp add: algebra_simps)
  have m1: "y mod 100 = 0 \<Longrightarrow> y mod 4 = 0"
    using dvd_trans[of 4 100 y] by (simp add: mod_eq_0_iff_dvd)
  have m2: "y mod 400 = 0 \<Longrightarrow> y mod 100 = 0"
    using dvd_trans[of 100 400 y] by (simp add: mod_eq_0_iff_dvd)
  show ?thesis
    unfolding DayFromYear_def DaysInYear_def a b c using m1 m2 by auto
qed

lemma DayFromYear_upper: "400 * DayFromYear y \<le> 146097 * y - 287810501"
proof -
  define a where "a = (y - 1969) div 4"
  define b where "b = (y - 1901) div 100"
  define c where "c = (y - 1601) div 400"
  have "4 * a \<le> y - 1969" "y - 1901 < 100 * b + 100" "400 * c \<le> y - 1601"
    unfolding a_def b_def c_def by (simp_all add: div_bounds)
  moreover have "DayFromYear y = 365 * y - 719050 + a - b + c"
    by (simp add: DayFromYear_def a_def b_def c_def)
  ultimately show ?thesis by linarith
qed

lemma DayFromYear_lower: "146097 * y - 287811596 \<le> 400 * DayFromYear y"
proof -
  define a where "a = (y - 1969) div 4"
  define b where "b = (y - 1901) div 100"
  define c where "c = (y - 1601) div 400"
  have "y - 1969 < 4 * a + 4" "100 * b \<le> y - 1901" "y - 1601 < 400 * c + 400"
    unfolding a_def b_def c_def by (simp_all add: div_bounds)
  moreover have "DayFromYear y = 365 * y - 719050 + a - b + c"
    by (simp add: DayFromYear_def a_def b_def c_def)
  ultimately show ?thesis by linarith
qed

lemma year_estimate:
  fixes d :: int
  defines "y0 \<equiv> 1970 + (d * 400) div 146097"
  shows "DayFromYear (y0 - 1) \<le> d" and "d < DayFromYear (y0 + 2)"
proof -
  define q where "q = (d * 400) div 146097"
  have q: "146097 * q \<le> d * 400" "d * 400 < 146097 * q + 146097"
    unfolding q_def using div_bounds[of 146097 "d * 400"] by simp_all
  define y1 where "y1 = y0 - 1"
  define y2 where "y2 = y0 + 2"
  have y: "y1 = q + 1969" "y2 = q + 1972" by (simp_all add: y1_def y2_def y0_def q_def)
  have "DayFromYear y1 \<le> d"
    using DayFromYear_upper[of y1] q y by linarith
  then show "DayFromYear (y0 - 1) \<le> d" by (simp add: y1_def)
  have "d < DayFromYear y2"
    using DayFromYear_lower[of y2] q y by linarith
  then show "d < DayFromYear (y0 + 2)" by (simp add: y2_def)
qed

text \<open>The computed year is the year of the standard: the one whose days contain the day.\<close>

lemma YearFromTime_bounds:
  shows "DayFromYear (YearFromTime t) \<le> Day t" and "Day t < DayFromYear (YearFromTime t + 1)"
proof -
  define d where "d = Day t"
  define y where "y = 1970 + (d * 400) div 146097"
  have lo: "DayFromYear (y - 1) \<le> d" and hi: "d < DayFromYear (y + 2)"
    using year_estimate[of d] by (simp_all add: y_def)
  have Y: "YearFromTime t = (if d < DayFromYear y then y - 1 else if DayFromYear (y + 1) \<le> d then y + 1 else y)"
    by (simp add: YearFromTime_def Let_def d_def y_def)
  have e: "y + 1 + 1 = y + 2" by arith
  have hi': "d < DayFromYear (y + 1 + 1)" using hi unfolding e .
  show "DayFromYear (YearFromTime t) \<le> Day t"
    unfolding Y d_def[symmetric] using lo by (simp only: split: if_splits) auto
  show "Day t < DayFromYear (YearFromTime t + 1)"
  proof (cases "d < DayFromYear y")
    case True
    then show ?thesis unfolding Y d_def[symmetric] by simp
  next
    case False
    show ?thesis
    proof (cases "DayFromYear (y + 1) \<le> d")
      case True
      then show ?thesis unfolding Y d_def[symmetric] using False hi' by (simp only: if_False if_True)
    next
      case F2: False
      then show ?thesis unfolding Y d_def[symmetric] using False by simp
    qed
  qed
qed

lemma DayFromYear_mono: "y \<le> z \<Longrightarrow> DayFromYear y \<le> DayFromYear z"
proof -
  assume "y \<le> z"
  then obtain n :: nat where z: "z = y + int n" by (metis nat_le_iff_add zle_iff_zadd)
  have "DayFromYear y \<le> DayFromYear (y + int n)"
  proof (induction n)
    case 0
    then show ?case by simp
  next
    case (Suc n)
    have "y + int (Suc n) = y + int n + 1" by simp
    then have "DayFromYear (y + int (Suc n)) = DayFromYear (y + int n) + DaysInYear (y + int n)"
      using DayFromYear_step[of "y + int n"] by (simp only:)
    moreover have "0 \<le> DaysInYear (y + int n)" by (simp add: DaysInYear_def)
    ultimately show ?case using Suc by linarith
  qed
  then show ?thesis by (simp add: z)
qed

lemma YearFromTime_largest:
  assumes "TimeFromYear y \<le> t"
  shows "y \<le> YearFromTime t"
proof (rule ccontr)
  assume "\<not> y \<le> YearFromTime t"
  then have "YearFromTime t + 1 \<le> y" by simp
  then have "DayFromYear (YearFromTime t + 1) \<le> DayFromYear y" by (rule DayFromYear_mono)
  moreover have "DayFromYear y \<le> Day t"
  proof -
    have "msPerDay * DayFromYear y \<le> t" using assms by (simp add: TimeFromYear_def)
    then have "(msPerDay * DayFromYear y) div msPerDay \<le> t div msPerDay"
      by (intro zdiv_mono1) (simp_all add: msPerDay_def)
    then show ?thesis by (simp add: Day_def msPerDay_def)
  qed
  ultimately show False using YearFromTime_bounds(2)[of t] by linarith
qed

lemma YearFromTime_TimeFromYear: "TimeFromYear (YearFromTime t) \<le> t"
proof -
  have "msPerDay * Day t \<le> t" using div_bounds(1)[of msPerDay t] by (simp add: Day_def msPerDay_def)
  moreover have "msPerDay * DayFromYear (YearFromTime t) \<le> msPerDay * Day t"
    using YearFromTime_bounds(1)[of t] by (simp add: msPerDay_def)
  ultimately show ?thesis by (simp add: TimeFromYear_def)
qed

lemma DayWithinYear_range:
  shows "0 \<le> DayWithinYear t" and "DayWithinYear t < 365 + InLeapYear t"
proof -
  show "0 \<le> DayWithinYear t" using YearFromTime_bounds(1)[of t] by (simp add: DayWithinYear_def)
  have "DayFromYear (YearFromTime t + 1) = DayFromYear (YearFromTime t) + DaysInYear (YearFromTime t)"
    by (rule DayFromYear_step)
  moreover have "DaysInYear (YearFromTime t) = 365 + InLeapYear t"
    by (simp add: InLeapYear_def DaysInYear_def)
  ultimately show "DayWithinYear t < 365 + InLeapYear t"
    using YearFromTime_bounds(2)[of t] by (simp add: DayWithinYear_def)
qed

lemma InLeapYear_range: "InLeapYear t = 0 \<or> InLeapYear t = 1"
  by (simp add: InLeapYear_def)

lemma MonthFromTime_range:
  shows "0 \<le> MonthFromTime t" and "MonthFromTime t \<le> 11"
  using DayWithinYear_range[of t] by (simp_all add: MonthFromTime_def Let_def)

lemma DateFromTime_DaysBeforeMonth:
  "DateFromTime t = DayWithinYear t - DaysBeforeMonth (MonthFromTime t) (InLeapYear t) + 1"
  by (simp add: DateFromTime_def DaysBeforeMonth_def MonthFromTime_def Let_def)

lemma DateFromTime_range:
  shows "1 \<le> DateFromTime t" and "DateFromTime t \<le> 31"
  using DayWithinYear_range[of t] InLeapYear_range[of t]
  by (auto simp: DateFromTime_def MonthFromTime_def Let_def)

lemma MakeDay_of_fields:
  "MakeDay (YearFromTime t) (MonthFromTime t) (DateFromTime t + n) = Day t + n"
proof -
  have m: "MonthFromTime t div 12 = 0" "MonthFromTime t mod 12 = MonthFromTime t"
    using MonthFromTime_range[of t] by simp_all
  have l: "(if DaysInYear (YearFromTime t) = 365 then 0 else 1) = InLeapYear t"
    by (simp add: InLeapYear_def)
  show ?thesis
    unfolding MakeDay_def Let_def m add_0_right l DateFromTime_DaysBeforeMonth
    by (simp add: DayWithinYear_def)
qed

lemma Day_TimeWithinDay: "MakeDate (Day t) (TimeWithinDay t) = t"
  by (simp add: MakeDate_def Day_def TimeWithinDay_def)

lemma setDate_adds_days:
  "Date_setDate nd (Some t0) (map_option (\<lambda>d. d + n) (Date_getDate nd (Some t0))) =
     TimeClip (UTC nd (LocalTime nd t0 + n * msPerDay))"
proof -
  have "MakeDate (Day (LocalTime nd t0) + n) (TimeWithinDay (LocalTime nd t0)) = LocalTime nd t0 + n * msPerDay"
    using Day_TimeWithinDay[of "LocalTime nd t0"] by (simp add: MakeDate_def algebra_simps)
  then show ?thesis
    by (simp add: Date_setDate_def Date_getDate_def Let_def MakeDay_of_fields)
qed

lemma digit_nth:
  assumes "k < 10"
  shows "is_digit (''0123456789'' ! k)" and "digit_val (''0123456789'' ! k) = int k"
proof -
  show "is_digit (''0123456789'' ! k)"
    unfolding is_digit_def using assms by (intro nth_mem) simp
  have "k = 0 \<or> k = 1 \<or> k = 2 \<or> k = 3 \<or> k = 4 \<or> k = 5 \<or> k = 6 \<or> k = 7 \<or> k = 8 \<or> k = 9"
    using assms by arith
  then show "digit_val (''0123456789'' ! k) = int k"
    by (elim disjE) (simp_all add: digit_val_def)
qed

lemma digit_char_props:
  shows "is_digit (digit_char d)" and "digit_val (digit_char d) = d mod 10"
proof -
  have "0 \<le> d mod 10" "d mod 10 < 10" by simp_all
  then have k: "nat (d mod 10) < 10" "int (nat (d mod 10)) = d mod 10" by simp_all
  show "is_digit (digit_char d)" unfolding digit_char_def using k(1) by (rule digit_nth(1))
  show "digit_val (digit_char d) = d mod 10" unfolding digit_char_def using digit_nth(2)[OF k(1)] k(2) by simp
qed

lemma list_all_pad: "list_all is_digit (pad k n)"
  by (induction k n rule: pad.induct) (simp_all add: digit_char_props)

lemma pad2: "pad 2 n = [digit_char (n div 10), digit_char n]"
  by (simp add: numeral_2_eq_2)

lemma pad3: "pad 3 n = [digit_char (n div 10 div 10), digit_char (n div 10), digit_char n]"
  by (simp add: numeral_3_eq_3)

lemma field_in_pad2:
  assumes "lo \<le> n" "n \<le> hi" "0 \<le> n" "n < 100"
  shows "field_in [digit_char (n div 10), digit_char n] lo hi"
proof -
  have "n div 10 < 10" "0 \<le> n div 10" using assms by simp_all
  then have "(n div 10) mod 10 = n div 10" by simp
  then have "dec_value [digit_char (n div 10), digit_char n] = n"
    by (simp add: dec_value_def digit_char_props)
  then show ?thesis using assms by (simp add: field_in_def digit_char_props)
qed

lemma field_in_pad3:
  assumes "0 \<le> n" "n < 1000"
  shows "field_in [digit_char (n div 10 div 10), digit_char (n div 10), digit_char n] 0 999"
proof -
  have "n div 10 div 10 < 10" "0 \<le> n div 10 div 10" using assms by simp_all
  then have "(n div 10 div 10) mod 10 = n div 10 div 10" by simp
  moreover have "10 * (n div 10 div 10) + (n div 10) mod 10 = n div 10" by simp
  moreover have "10 * (n div 10) + n mod 10 = n" by simp
  ultimately have "dec_value [digit_char (n div 10 div 10), digit_char (n div 10), digit_char n] = n"
    by (simp add: dec_value_def digit_char_props)
  then show ?thesis using assms by (simp add: field_in_def digit_char_props)
qed

lemma iso_year_shape:
  "length (iso_year y) = 4 \<and> list_all is_digit (iso_year y) \<or>
   length (iso_year y) = 7 \<and> (hd (iso_year y) = CHR ''+'' \<or> hd (iso_year y) = CHR ''-'') \<and>
     list_all is_digit (tl (iso_year y))"
  by (simp add: iso_year_def list_all_pad)

lemma iso_string_valid: "is_iso8601_utc_ms (iso_string t)"
proof -
  define r where "r = ''-'' @ pad 2 (MonthFromTime t + 1) @ ''-'' @
     pad 2 (DateFromTime t) @ ''T'' @ pad 2 (HourFromTime t) @ '':'' @
     pad 2 (MinFromTime t) @ '':'' @ pad 2 (SecFromTime t) @ ''.'' @
     pad 3 (msFromTime t) @ ''Z''"
  have s: "iso_string t = iso_year (YearFromTime t) @ r" by (simp add: iso_string_def r_def)
  have lr: "length r = 20" by (simp add: r_def)
  have t: "take (length (iso_string t) - 20) (iso_string t) = iso_year (YearFromTime t)"
    and d: "drop (length (iso_string t) - 20) (iso_string t) = r"
    by (simp_all add: s lr)
  have m: "field_in [digit_char ((MonthFromTime t + 1) div 10), digit_char (MonthFromTime t + 1)] 1 12"
    using MonthFromTime_range[of t] by (intro field_in_pad2) simp_all
  have dd: "field_in [digit_char (DateFromTime t div 10), digit_char (DateFromTime t)] 1 31"
    using DateFromTime_range[of t] by (intro field_in_pad2) simp_all
  have h: "field_in [digit_char (HourFromTime t div 10), digit_char (HourFromTime t)] 0 23"
    by (intro field_in_pad2) (simp_all add: HourFromTime_def)
  have mi: "field_in [digit_char (MinFromTime t div 10), digit_char (MinFromTime t)] 0 59"
    by (intro field_in_pad2) (simp_all add: MinFromTime_def)
  have se: "field_in [digit_char (SecFromTime t div 10), digit_char (SecFromTime t)] 0 59"
    by (intro field_in_pad2) (simp_all add: SecFromTime_def)
  have ms: "field_in [digit_char (msFromTime t div 10 div 10), digit_char (msFromTime t div 10), digit_char (msFromTime t)] 0 999"
    by (intro field_in_pad3) (simp_all add: msFromTime_def msPerSecond_def)
  have r': "r = [CHR ''-'', digit_char ((MonthFromTime t + 1) div 10), digit_char (MonthFromTime t + 1), CHR ''-'',
      digit_char (DateFromTime t div 10), digit_char (DateFromTime t), CHR ''T'',
      digit_char (HourFromTime t div 10), digit_char (HourFromTime t), CHR '':'',
      digit_char (MinFromTime t div 10), digit_char (MinFromTime t), CHR '':'',
      digit_char (SecFromTime t div 10), digit_char (SecFromTime t), CHR ''.'',
      digit_char (msFromTime t div 10 div 10), digit_char (msFromTime t div 10), digit_char (msFromTime t), CHR ''Z'']"
    by (simp add: r_def pad2 pad3)
  have "20 \<le> length (iso_string t)" by (simp add: s lr)
  moreover have "r ! 0 = CHR ''-''" "r ! 3 = CHR ''-''" "r ! 6 = CHR ''T''" "r ! 9 = CHR '':''" "r ! 12 = CHR '':''"
    "r ! 15 = CHR ''.''" "r ! 19 = CHR ''Z''"
    by (simp_all add: r')
  moreover have "field_in (take 2 (drop 1 r)) 1 12" "field_in (take 2 (drop 4 r)) 1 31"
    "field_in (take 2 (drop 7 r)) 0 23" "field_in (take 2 (drop 10 r)) 0 59" "field_in (take 2 (drop 13 r)) 0 59"
    "field_in (take 3 (drop 16 r)) 0 999"
    using m dd h mi se ms by (simp_all add: r')
  ultimately show ?thesis
    unfolding is_iso8601_utc_ms_def Let_def t d using iso_year_shape[of "YearFromTime t"] by blast
qed

lemma Day_of_days: "Day (d * msPerDay) = d"
  by (simp add: Day_def msPerDay_def)

lemma YearFromTime_unique:
  assumes "DayFromYear y \<le> Day t" and "Day t < DayFromYear (y + 1)"
  shows "YearFromTime t = y"
proof (rule antisym)
  show "YearFromTime t \<le> y"
  proof (rule ccontr)
    assume "\<not> YearFromTime t \<le> y"
    then have "y + 1 \<le> YearFromTime t" by simp
    then have "DayFromYear (y + 1) \<le> DayFromYear (YearFromTime t)" by (rule DayFromYear_mono)
    then show False using assms(2) YearFromTime_bounds(1)[of t] by linarith
  qed
  show "y \<le> YearFromTime t"
  proof (rule ccontr)
    assume "\<not> y \<le> YearFromTime t"
    then have "YearFromTime t + 1 \<le> y" by simp
    then have "DayFromYear (YearFromTime t + 1) \<le> DayFromYear y" by (rule DayFromYear_mono)
    then show False using assms(1) YearFromTime_bounds(2)[of t] by linarith
  qed
qed

text \<open>
  \<open>MakeDay\<close> as the standard defines it: the day it starts from is the first of the
  month \<open>mn\<close> of the year \<open>ym\<close>.
\<close>

lemma MakeDay_first_of_month:
  assumes "0 \<le> mn" and "mn \<le> 11"
  shows "YearFromTime (MakeDay ym mn 1 * msPerDay) = ym \<and>
         MonthFromTime (MakeDay ym mn 1 * msPerDay) = mn \<and>
         DateFromTime (MakeDay ym mn 1 * msPerDay) = 1"
proof -
  define t where "t = MakeDay ym mn 1 * msPerDay"
  define l :: int where "l = (if DaysInYear ym = 365 then 0 else 1)"
  define b where "b = DaysBeforeMonth mn l"
  have l: "l = 0 \<or> l = 1" by (simp add: l_def)
  have dy: "DaysInYear ym = 365 + l" by (simp add: l_def DaysInYear_def)
  have m: "mn div 12 = 0" "mn mod 12 = mn" using assms(1,2) by simp_all
  have d: "Day t = DayFromYear ym + b"
    unfolding t_def Day_of_days by (simp add: MakeDay_def Let_def m l_def b_def)
  have b: "0 \<le> b" "b < 365 + l" using l by (auto simp: b_def DaysBeforeMonth_def)
  have y: "YearFromTime t = ym"
    using d b dy DayFromYear_step[of ym] by (intro YearFromTime_unique) simp_all
  have il: "InLeapYear t = l" by (simp add: InLeapYear_def y l_def)
  have w: "DayWithinYear t = b" by (simp add: DayWithinYear_def y d)
  have cases: "mn = 0 \<or> mn = 1 \<or> mn = 2 \<or> mn = 3 \<or> mn = 4 \<or> mn = 5 \<or> mn = 6 \<or> mn = 7 \<or> mn = 8 \<or>
      mn = 9 \<or> mn = 10 \<or> mn = 11"
    using assms(1,2) by arith
  have mo: "MonthFromTime t = mn"
    using cases l by (elim disjE) (simp_all add: MonthFromTime_def Let_def w il b_def DaysBeforeMonth_def)
  have "DateFromTime t = 1"
    unfolding DateFromTime_DaysBeforeMonth mo il w by (simp add: b_def)
  then show ?thesis using y mo by (simp add: t_def)
qed

text \<open>The years of the valid time values, which six digits hold.\<close>

lemma YearFromTime_range:
  assumes "\<bar>t\<bar> \<le> maxTime"
  shows "- 271821 \<le> YearFromTime t" and "YearFromTime t \<le> 275760"
proof -
  have d: "- 100000000 \<le> Day t" "Day t \<le> 100000000"
  proof -
    have "- maxTime \<le> t" "t \<le> maxTime" using assms by linarith+
    then have "(- maxTime) div msPerDay \<le> t div msPerDay" "t div msPerDay \<le> maxTime div msPerDay"
      by (simp_all add: zdiv_mono1 msPerDay_def)
    then show "- 100000000 \<le> Day t" "Day t \<le> 100000000"
      by (simp_all add: Day_def msPerDay_def maxTime_def)
  qed
  show "- 271821 \<le> YearFromTime t"
  proof (rule ccontr)
    assume "\<not> - 271821 \<le> YearFromTime t"
    then have "YearFromTime t + 1 \<le> - 271821" by simp
    then have "DayFromYear (YearFromTime t + 1) \<le> DayFromYear (- 271821)" by (rule DayFromYear_mono)
    moreover have "DayFromYear (- 271821) = - 100000109" by (simp add: DayFromYear_def)
    ultimately show False using YearFromTime_bounds(2)[of t] d(1) by linarith
  qed
  show "YearFromTime t \<le> 275760"
  proof (rule ccontr)
    assume "\<not> YearFromTime t \<le> 275760"
    then have "275761 \<le> YearFromTime t" by simp
    then have "DayFromYear 275761 \<le> DayFromYear (YearFromTime t)" by (rule DayFromYear_mono)
    moreover have "DayFromYear 275761 = 100000110" by (simp add: DayFromYear_def)
    ultimately show False using YearFromTime_bounds(1)[of t] d(2) by linarith
  qed
qed

text \<open>\<open>pad\<close> writes the number itself when it has no more digits than asked for.\<close>

lemma dec_value_snoc: "dec_value (ds @ [c]) = 10 * dec_value ds + digit_val c"
  by (simp add: dec_value_def)

lemma dec_value_pad: "0 \<le> n \<Longrightarrow> n < 10 ^ k \<Longrightarrow> dec_value (pad k n) = n"
proof (induction k n rule: pad.induct)
  case (1 n)
  then show ?case by (simp add: dec_value_def)
next
  case (2 k n)
  have "0 \<le> n div 10" using 2(2) by simp
  moreover have "n div 10 < 10 ^ k" using 2(3) by simp
  ultimately have "dec_value (pad k (n div 10)) = n div 10" using 2(1) by simp
  then show ?case by (simp add: dec_value_snoc digit_char_props)
qed

section \<open>Decimal timestamps\<close>

lemma show_nat_digits: "0 \<le> n \<Longrightarrow> list_all is_digit (show_nat n) \<and> show_nat n \<noteq> []"
proof (induction n rule: show_nat.induct)
  case (1 n)
  show ?case
  proof (cases "n < 10")
    case True
    then show ?thesis by (subst show_nat.simps, subst (2) show_nat.simps) (simp add: digit_char_props)
  next
    case False
    then have "0 \<le> n div 10" using 1(2) by simp
    then have "list_all is_digit (show_nat (n div 10))" using 1(1) False by simp
    then show ?thesis using False
      by (subst show_nat.simps, subst (2) show_nat.simps) (simp add: digit_char_props)
  qed
qed

lemma dec_value_show_nat: "0 \<le> n \<Longrightarrow> dec_value (show_nat n) = n"
proof (induction n rule: show_nat.induct)
  case (1 n)
  show ?case
  proof (cases "n < 10")
    case True
    then have "n mod 10 = n" using 1(2) by simp
    then show ?thesis using True
      by (subst show_nat.simps) (simp add: dec_value_def digit_char_props)
  next
    case False
    then have "0 \<le> n div 10" using 1(2) by simp
    then have "dec_value (show_nat (n div 10)) = n div 10" using 1(1) False by simp
    then show ?thesis using False
      by (subst show_nat.simps) (simp add: dec_value_snoc digit_char_props)
  qed
qed

lemma digit_cases:
  assumes "is_digit c"
  shows "c = CHR ''0'' \<or> c = CHR ''1'' \<or> c = CHR ''2'' \<or> c = CHR ''3'' \<or> c = CHR ''4'' \<or>
         c = CHR ''5'' \<or> c = CHR ''6'' \<or> c = CHR ''7'' \<or> c = CHR ''8'' \<or> c = CHR ''9''"
  using assms unfolding is_digit_def by (simp only: set_simps insert_iff empty_iff) blast

lemma digit_not_special:
  assumes "is_digit c"
  shows "c \<noteq> CHR '',''" and "c \<noteq> CHR ''=''" and "c \<noteq> CHR ''-''" and "c \<noteq> CHR ''+''"
    and "ws_len (c # cs) = 0"
proof -
  note d = digit_cases[OF assms]
  show "c \<noteq> CHR '',''" using d by (elim disjE) simp_all
  show "c \<noteq> CHR ''=''" using d by (elim disjE) simp_all
  show "c \<noteq> CHR ''-''" using d by (elim disjE) simp_all
  show "c \<noteq> CHR ''+''" using d by (elim disjE) simp_all
  show "ws_len (c # cs) = 0"
    using d by (elim disjE) (simp_all add: ws_len_def Let_def split: list.splits)
qed

lemma takeWhile_digits: "list_all is_digit ds \<Longrightarrow> takeWhile is_digit ds = ds"
  by (induction ds) auto

lemma parseInt_show_int: "parseInt (show_int i) = Some i"
proof (cases "i < 0")
  case True
  then have d: "list_all is_digit (show_nat (- i))" "show_nat (- i) \<noteq> []" "dec_value (show_nat (- i)) = - i"
    using show_nat_digits[of "- i"] dec_value_show_nat[of "- i"] by simp_all
  have w: "ws_len (CHR ''-'' # show_nat (- i)) = 0"
    by (simp add: ws_len_def Let_def split: list.splits)
  have "skip_ws (CHR ''-'' # show_nat (- i)) = CHR ''-'' # show_nat (- i)"
    by (subst skip_ws.simps) (simp add: w)
  then show ?thesis using True d
    by (simp add: parseInt_def show_int_def Let_def takeWhile_digits)
next
  case False
  then have d: "list_all is_digit (show_nat i)" "show_nat i \<noteq> []" "dec_value (show_nat i) = i"
    using show_nat_digits[of i] dec_value_show_nat[of i] by simp_all
  then obtain c cs where s: "show_nat i = c # cs" by (cases "show_nat i") auto
  then have c: "is_digit c" using d(1) by simp
  have "skip_ws (c # cs) = c # cs"
    by (subst skip_ws.simps) (simp add: digit_not_special(5)[OF c])
  then show ?thesis using False d c digit_not_special(3,4)[OF c]
    by (simp add: parseInt_def show_int_def Let_def takeWhile_digits s)
qed

lemma show_int_no_separator:
  shows "CHR '','' \<notin> set (show_int i)" and "CHR ''='' \<notin> set (show_int i)" and "show_int i \<noteq> []"
proof -
  have a: "list_all is_digit ds \<Longrightarrow> CHR '','' \<notin> set ds \<and> CHR ''='' \<notin> set ds" for ds
    by (induction ds) (auto simp: is_digit_def)
  show "CHR '','' \<notin> set (show_int i)" "CHR ''='' \<notin> set (show_int i)" "show_int i \<noteq> []"
    using a[of "show_nat i"] a[of "show_nat (- i)"] show_nat_digits[of i] show_nat_digits[of "- i"]
    by (auto simp: show_int_def)
qed

text \<open>
  The documented header for a timestamp of \<open>t\<close> seconds, written in decimal, and the
  expected digest: it is accepted exactly when the timestamp is fresh.
\<close>

lemma verifyWebhookSignature_documented_header:
  assumes "d = hmac_sha256_hex nd secret (show_int t @ ''.'' @ toString_utf8 nd body)"
    and "d \<noteq> []" and "CHR '','' \<notin> set d" and "CHR ''='' \<notin> set d"
  shows "(fst (verifyWebhookSignature nd (Some (''t='' @ show_int t @ '',v1='' @ d)) (Some body) secret tol) = Inr True) =
           (Date_now nd - t * 1000 < (case tol of None \<Rightarrow> 5 | Some m \<Rightarrow> m) * 60 * 1000)"
proof -
  have "parse_header (''t'' @ CHR ''='' # show_int t @ CHR '','' # ''v1'' @ CHR ''='' # d @ []) = (Some (show_int t), Some d)"
    using assms(3,4) show_int_no_separator(1,2)[of t] by (intro parse_header_two_pairs) auto
  then have p: "parse_header (''t='' @ show_int t @ '',v1='' @ d) = (Some (show_int t), Some d)" by simp
  show ?thesis
    unfolding verifyWebhookSignature_parsed[OF p show_int_no_separator(3) assms(2) assms(1) parseInt_show_int]
    by (simp split: sum.splits)
qed

section \<open>Properties of the due date\<close>

lemma calculateDueDate_days:
  "calculateDueDate nd p =
     (map_sum id Some
        (Date_toISOString (TimeClip (UTC nd (LocalTime nd (Date_now nd) +
           (if p = Some ''HIGH'' then 1 else if p = Some ''MEDIUM'' then 3 else if p = Some ''LOW'' then 7
            else if p = Some ''NONE'' then 14 else 7) * msPerDay)))),
      if p = Some ''HIGH'' \<or> p = Some ''MEDIUM'' \<or> p = Some ''LOW'' \<or> p = Some ''NONE'' then []
      else [Console WARN
              [Txt (''[calculateDueDate] Unknown or undefined priority: '' @ [CHR 0x22] @
                    show_opt p @ [CHR 0x22] @ ''. Defaulting to 7 days.'')]])"
  unfolding calculateDueDate_def Let_def
  by (simp add: setDate_adds_days split: sum.splits)

text \<open>
  Claim C6. \<open>calculateDueDate\<close> returns the ISO string of the date a fixed number of
  whole days after the current one, as \<open>setDate(getDate() + days)\<close> computes it in the
  host's local time and converts it back: 1 day for HIGH, 3 for MEDIUM, 7 for LOW, 14 for
  NONE, and it logs nothing. For every other value, an absent priority included, it
  returns what it returns for LOW and logs one warning that names the value. Where the
  host's zone has a constant offset, the date is the current instant plus that many times
  86400000 milliseconds.
\<close>

theorem calculateDueDate_offsets:
  "calculateDueDate nd (Some ''HIGH'') =
     (map_sum id Some (Date_toISOString (TimeClip (UTC nd (LocalTime nd (Date_now nd) + 1 * msPerDay)))), [])
   \<and> calculateDueDate nd (Some ''MEDIUM'') =
     (map_sum id Some (Date_toISOString (TimeClip (UTC nd (LocalTime nd (Date_now nd) + 3 * msPerDay)))), [])
   \<and> calculateDueDate nd (Some ''LOW'') =
     (map_sum id Some (Date_toISOString (TimeClip (UTC nd (LocalTime nd (Date_now nd) + 7 * msPerDay)))), [])
   \<and> calculateDueDate nd (Some ''NONE'') =
     (map_sum id Some (Date_toISOString (TimeClip (UTC nd (LocalTime nd (Date_now nd) + 14 * msPerDay)))), [])
   \<and> (p \<noteq> Some ''HIGH'' \<and> p \<noteq> Some ''MEDIUM'' \<and> p \<noteq> Some ''LOW'' \<and> p \<noteq> Some ''NONE'' \<longrightarrow>
        calculateDueDate nd p =
          (fst (calculateDueDate nd (Some ''LOW'')),
           [Console WARN
              [Txt (''[calculateDueDate] Unknown or undefined priority: '' @ [CHR 0x22] @
                    show_opt p @ [CHR 0x22] @ ''. Defaulting to 7 days.'')]]))
   \<and> ((\<forall>t isUTC. LocalTZA nd t isUTC = z) \<longrightarrow>
        UTC nd (LocalTime nd (Date_now nd) + n * msPerDay) = Date_now nd + n * msPerDay)"
  by (simp add: calculateDueDate_days UTC_def LocalTime_def)

text \<open>
  With the clock of the tests, 2024-06-15T12:00:00.000Z: the dates the tests expect, and
  the warnings for \<open>"URGENT"\<close> and for \<open>undefined\<close>.
\<close>

theorem calculateDueDate_offsets_witness:
  "calculateDueDate example_node (Some ''HIGH'') = (Inr (Some ''2024-06-16T12:00:00.000Z''), [])
   \<and> calculateDueDate example_node (Some ''MEDIUM'') = (Inr (Some ''2024-06-18T12:00:00.000Z''), [])
   \<and> calculateDueDate example_node (Some ''LOW'') = (Inr (Some ''2024-06-22T12:00:00.000Z''), [])
   \<and> calculateDueDate example_node (Some ''NONE'') = (Inr (Some ''2024-06-29T12:00:00.000Z''), [])
   \<and> calculateDueDate example_node (Some ''URGENT'') =
       (Inr (Some ''2024-06-22T12:00:00.000Z''),
        [Console WARN [Txt (''[calculateDueDate] Unknown or undefined priority: '' @ [CHR 0x22] @
                            ''URGENT'' @ [CHR 0x22] @ ''. Defaulting to 7 days.'')]])
   \<and> calculateDueDate example_node None =
       (Inr (Some ''2024-06-22T12:00:00.000Z''),
        [Console WARN [Txt (''[calculateDueDate] Unknown or undefined priority: '' @ [CHR 0x22] @
                            ''undefined'' @ [CHR 0x22] @ ''. Defaulting to 7 days.'')]])
   \<and> UTC example_node (LocalTime example_node (Date_now example_node) + 7 * msPerDay)
       = Date_now example_node + 7 * msPerDay"
proof -
  have d: "map_sum id Some (Date_toISOString (TimeClip (UTC example_node (LocalTime example_node (Date_now example_node) + 1 * msPerDay))))
            = Inr (Some ''2024-06-16T12:00:00.000Z'')"
    "map_sum id Some (Date_toISOString (TimeClip (UTC example_node (LocalTime example_node (Date_now example_node) + 3 * msPerDay))))
            = Inr (Some ''2024-06-18T12:00:00.000Z'')"
    "map_sum id Some (Date_toISOString (TimeClip (UTC example_node (LocalTime example_node (Date_now example_node) + 7 * msPerDay))))
            = Inr (Some ''2024-06-22T12:00:00.000Z'')"
    "map_sum id Some (Date_toISOString (TimeClip (UTC example_node (LocalTime example_node (Date_now example_node) + 14 * msPerDay))))
            = Inr (Some ''2024-06-29T12:00:00.000Z'')"
    by code_simp+
  have z: "\<forall>t isUTC. LocalTZA example_node t isUTC = 0" by (simp add: example_node_def)
  note T = calculateDueDate_offsets[where nd = example_node and z = 0 and n = 7]
  have c1: "calculateDueDate example_node (Some ''HIGH'') = (Inr (Some ''2024-06-16T12:00:00.000Z''), [])"
    using T[THEN conjunct1] by (simp only: d)
  have c2: "calculateDueDate example_node (Some ''MEDIUM'') = (Inr (Some ''2024-06-18T12:00:00.000Z''), [])"
    using T[THEN conjunct2, THEN conjunct1] by (simp only: d)
  have c3: "calculateDueDate example_node (Some ''LOW'') = (Inr (Some ''2024-06-22T12:00:00.000Z''), [])"
    using T[THEN conjunct2, THEN conjunct2, THEN conjunct1] by (simp only: d)
  have c4: "calculateDueDate example_node (Some ''NONE'') = (Inr (Some ''2024-06-29T12:00:00.000Z''), [])"
    using T[THEN conjunct2, THEN conjunct2, THEN conjunct2, THEN conjunct1] by (simp only: d)
  note U = calculateDueDate_offsets[where nd = example_node and z = 0 and n = 7 and p = "Some ''URGENT''",
      THEN conjunct2, THEN conjunct2, THEN conjunct2, THEN conjunct2, THEN conjunct1]
  note N = calculateDueDate_offsets[where nd = example_node and z = 0 and n = 7 and p = None,
      THEN conjunct2, THEN conjunct2, THEN conjunct2, THEN conjunct2, THEN conjunct1]
  have c5: "calculateDueDate example_node (Some ''URGENT'') =
       (Inr (Some ''2024-06-22T12:00:00.000Z''),
        [Console WARN [Txt (''[calculateDueDate] Unknown or undefined priority: '' @ [CHR 0x22] @
                            ''URGENT'' @ [CHR 0x22] @ ''. Defaulting to 7 days.'')]])"
    using U by (simp add: c3 show_opt_def)
  have c6: "calculateDueDate example_node None =
       (Inr (Some ''2024-06-22T12:00:00.000Z''),
        [Console WARN [Txt (''[calculateDueDate] Unknown or undefined priority: '' @ [CHR 0x22] @
                            ''undefined'' @ [CHR 0x22] @ ''. Defaulting to 7 days.'')]])"
    using N by (simp add: c3 show_opt_def)
  have c7: "UTC example_node (LocalTime example_node (Date_now example_node) + 7 * msPerDay)
       = Date_now example_node + 7 * msPerDay"
    using T[THEN conjunct2, THEN conjunct2, THEN conjunct2, THEN conjunct2, THEN conjunct2] z by blast
  show ?thesis using c1 c2 c3 c4 c5 c6 c7 by blast
qed

text \<open>A sufficient condition for the hypothesis on the clock used below.\<close>

lemma clock_in_range:
  assumes "\<bar>Date_now nd\<bar> + 16 * msPerDay \<le> maxTime" and "\<forall>t isUTC. \<bar>LocalTZA nd t isUTC\<bar> \<le> msPerDay"
  shows "\<forall>n. 0 \<le> n \<and> n \<le> 14 \<longrightarrow> \<bar>UTC nd (LocalTime nd (Date_now nd) + n * msPerDay)\<bar> \<le> maxTime"
proof (intro allI impI)
  fix n :: int
  assume n: "0 \<le> n \<and> n \<le> 14"
  define a where "a = LocalTZA nd (Date_now nd) True"
  define b where "b = LocalTZA nd (Date_now nd + a + n * msPerDay) False"
  have ab: "\<bar>a\<bar> \<le> msPerDay" "\<bar>b\<bar> \<le> msPerDay" using assms(2) by (simp_all add: a_def b_def)
  have m: "0 \<le> n * msPerDay" "n * msPerDay \<le> 14 * msPerDay" using n by (simp_all add: msPerDay_def)
  have "UTC nd (LocalTime nd (Date_now nd) + n * msPerDay) = Date_now nd + a + n * msPerDay - b"
    by (simp add: UTC_def LocalTime_def a_def b_def)
  then show "\<bar>UTC nd (LocalTime nd (Date_now nd) + n * msPerDay)\<bar> \<le> maxTime"
    using ab m assms(1) by linarith
qed

lemma calculateDueDate_returns:
  assumes "\<forall>n. 0 \<le> n \<and> n \<le> 14 \<longrightarrow> \<bar>UTC nd (LocalTime nd (Date_now nd) + n * msPerDay)\<bar> \<le> maxTime"
  shows "\<exists>s. fst (calculateDueDate nd p) = Inr (Some s) \<and> s \<noteq> [] \<and> is_iso8601_utc_ms s"
proof -
  define n :: int where "n = (if p = Some ''HIGH'' then 1 else if p = Some ''MEDIUM'' then 3 else if p = Some ''LOW'' then 7
            else if p = Some ''NONE'' then 14 else 7)"
  have "0 \<le> n \<and> n \<le> 14" by (simp add: n_def)
  then have "\<bar>UTC nd (LocalTime nd (Date_now nd) + n * msPerDay)\<bar> \<le> maxTime" using assms by blast
  then have "fst (calculateDueDate nd p) = Inr (Some (iso_string (UTC nd (LocalTime nd (Date_now nd) + n * msPerDay))))"
    unfolding calculateDueDate_days n_def[symmetric] by (simp add: TimeClip_def Date_toISOString_def)
  moreover have "iso_string t \<noteq> []" for t by (simp add: iso_string_def)
  ultimately show ?thesis using iso_string_valid by blast
qed

text \<open>
  Claim C7. Whatever the priority (a known one, any other string, absent),
  \<open>calculateDueDate\<close> returns a string, never \<open>null\<close> and never an exception, and
  the string is an ISO-8601 timestamp in UTC with milliseconds. This holds on every host
  whose clock is such that the dates up to 14 days ahead are within the range of Date
  (up to the year 275760).
\<close>

theorem calculateDueDate_total:
  assumes "\<forall>n. 0 \<le> n \<and> n \<le> 14 \<longrightarrow> \<bar>UTC nd (LocalTime nd (Date_now nd) + n * msPerDay)\<bar> \<le> maxTime"
  shows "\<exists>s. fst (calculateDueDate nd p) = Inr (Some s) \<and> is_iso8601_utc_ms s"
  using calculateDueDate_returns[OF assms] by blast

text \<open>
  The clock of the tests satisfies the hypothesis.
\<close>

theorem calculateDueDate_total_witness:
  "(\<exists>s. fst (calculateDueDate example_node (Some ''HIGH'')) = Inr (Some s) \<and> is_iso8601_utc_ms s)
   \<and> (\<exists>s. fst (calculateDueDate example_node (Some ''no such priority'')) = Inr (Some s) \<and> is_iso8601_utc_ms s)
   \<and> (\<exists>s. fst (calculateDueDate example_node None) = Inr (Some s) \<and> is_iso8601_utc_ms s)"
proof -
  have h: "\<forall>n. 0 \<le> n \<and> n \<le> 14 \<longrightarrow>
      \<bar>UTC example_node (LocalTime example_node (Date_now example_node) + n * msPerDay)\<bar> \<le> maxTime"
    by (simp add: example_node_def UTC_def LocalTime_def msPerDay_def maxTime_def)
  show ?thesis using calculateDueDate_total[OF h] by blast
qed

text \<open>At the very end of the range of Date the hypothesis fails, and so does the call.\<close>

lemma calculateDueDate_clock_at_limit:
  "fst (calculateDueDate (example_node\<lparr>Date_now := maxTime\<rparr>) (Some ''HIGH'')) = Inl (RangeError ''Invalid time value'')"
  by (simp add: calculateDueDate_days UTC_def LocalTime_def example_node_def TimeClip_def Date_toISOString_def
      msPerDay_def maxTime_def)

section \<open>Properties of the event processing\<close>

lemma calculateDueDate_effects:
  "snd (calculateDueDate nd p) = [] \<or>
   snd (calculateDueDate nd p) =
     [Console WARN [Txt (''[calculateDueDate] Unknown or undefined priority: '' @ [CHR 0x22] @
                         show_opt p @ [CHR 0x22] @ ''. Defaulting to 7 days.'')]]"
  by (simp add: calculateDueDate_days)

lemma calculateDueDate_filters:
  shows "filter (is_console ERROR) (snd (calculateDueDate nd p)) = []"
    and "filter (is_console WARN) (snd (calculateDueDate nd p)) = snd (calculateDueDate nd p)"
    and "filter is_get (snd (calculateDueDate nd p)) = []"
    and "filter is_patch (snd (calculateDueDate nd p)) = []"
  using calculateDueDate_effects[of nd p] by auto

lemma automateDueDate_patch:
  assumes "truthy (priority w)" and "calculateDueDate nd (priority w) = (Inr (Some d), outc)" and "d \<noteq> []"
  shows "automateDueDate nd env ax wid out (Some w) =
           (Inr (),
            out @ outc @
            [Console LOG [Txt (''[processWebhookEvent] Calculated new due date for WO '' @ show_int wid @
                               '' (Priority: '' @ show_opt (priority w) @ ''): '' @ d)],
             Console LOG [Txt ''--- API Key Debug ---''],
             Console LOG [Txt (''Full MAINTAINX_API_KEY (DEBUG):'' @ show_opt (MAINTAINX_API_KEY env))],
             Patch (MAINTAINX_BASE_URL env @ ''/workorders/'' @ show_int wid) d (maintainxApiHeaders env)] @
            (case axios_patch ax (MAINTAINX_BASE_URL env @ ''/workorders/'' @ show_int wid) d (maintainxApiHeaders env) of
               Resolves r \<Rightarrow> success_logs wid r
             | Rejects e \<Rightarrow> update_failed wid e # (if is_rate_limited e then [rate_limit_warning e] else [])))"
  using assms by (simp add: automateDueDate_def truthy_def Let_def split: outcome.splits)

lemma success_logs_filters:
  shows "filter (is_console ERROR) (success_logs wid r) = []"
    and "filter (is_console WARN) (success_logs wid r) = []"
  by (simp_all add: success_logs_def)

lemma is_console_simps' [simp]:
  "is_console ERROR (update_failed wid e)" "\<not> is_console WARN (update_failed wid e)"
  "is_console WARN (rate_limit_warning e)" "\<not> is_console ERROR (rate_limit_warning e)"
  by (simp_all add: update_failed_def rate_limit_warning_def Let_def)

text \<open>
  Claim C4 says that an update rejected with status 429 produces one warning and no error
  log. In this revision the error log comes before the test for 429: whenever the update
  of an embedded work order is rejected with 429, the call logs exactly one error, the
  failure with the response body, and then the rate-limit warning with the value of
  \<open>x-rate-limit-reset\<close>.
\<close>

theorem processWebhookEvent_429_logs_error:
  assumes "newWorkOrder payload = Some w" and "truthy (priority w)"
    and "calculateDueDate nd (priority w) = (Inr (Some d), outc)" and "d \<noteq> []"
    and "axios_patch ax (MAINTAINX_BASE_URL env @ ''/workorders/'' @ show_int (workOrderId payload)) d
           (maintainxApiHeaders env) = Rejects e"
    and "is_rate_limited e"
  shows "filter (is_console ERROR) (snd (processWebhookEvent nd env ax payload)) =
           [update_failed (workOrderId payload) e]
       \<and> filter (is_console WARN) (snd (processWebhookEvent nd env ax payload)) = outc @ [rate_limit_warning e]"
proof -
  have o: "outc = snd (calculateDueDate nd (priority w))" using assms(3) by simp
  show ?thesis
    unfolding processWebhookEvent_def Let_def assms(1) option.case
      automateDueDate_patch[OF assms(2) assms(3) assms(4)] assms(5)
    using assms(6) by (simp add: o calculateDueDate_filters)
qed

lemma example_due_HIGH:
  "calculateDueDate example_node (Some ''HIGH'') = (Inr (Some ''2024-06-16T12:00:00.000Z''), [])"
  by code_simp

text \<open>
  The case of the repository's test: work order 101 with priority HIGH, the update
  rejected with status 429, \<open>x-rate-limit-reset: 60\<close> and the body
  \<open>Too Many Requests\<close>. One error log and one warning.
\<close>

theorem processWebhookEvent_429_logs_error_witness:
  "filter (is_console ERROR)
     (snd (processWebhookEvent example_node example_env
            (example_axios (Rejects (example_rejection 500 [] ''unused''))
               (Rejects (example_rejection 429 [(''x-rate-limit-reset'', ''60'')] ''Too Many Requests'')))
            (example_payload (Some (example_workOrder (Some ''HIGH'')))))) =
     [Console ERROR [Txt ''[processWebhookEvent] Failed to update Work Order 101 in MaintainX:'',
                     Dat (DataText ''Too Many Requests'')]]
   \<and> filter (is_console WARN)
     (snd (processWebhookEvent example_node example_env
            (example_axios (Rejects (example_rejection 500 [] ''unused''))
               (Rejects (example_rejection 429 [(''x-rate-limit-reset'', ''60'')] ''Too Many Requests'')))
            (example_payload (Some (example_workOrder (Some ''HIGH'')))))) =
     [Console WARN [Txt ''[processWebhookEvent] Rate limited. Retrying after 60 seconds. (In production, would queue for retry)'']]"
proof -
  let ?e = "example_rejection 429 [(''x-rate-limit-reset'', ''60'')] ''Too Many Requests''"
  let ?ax = "example_axios (Rejects (example_rejection 500 [] ''unused'')) (Rejects ?e)"
  let ?w = "example_workOrder (Some ''HIGH'')"
  let ?pl = "example_payload (Some ?w)"
  have h1: "newWorkOrder ?pl = Some ?w" by (simp add: example_payload_def)
  have h2: "truthy (priority ?w)" by (simp add: example_workOrder_def truthy_def)
  have h3: "calculateDueDate example_node (priority ?w) = (Inr (Some ''2024-06-16T12:00:00.000Z''), [])"
    using example_due_HIGH by (simp add: example_workOrder_def)
  have h4: "''2024-06-16T12:00:00.000Z'' \<noteq> []" by simp
  have h5: "axios_patch ?ax (MAINTAINX_BASE_URL example_env @ ''/workorders/'' @ show_int (workOrderId ?pl))
              ''2024-06-16T12:00:00.000Z'' (maintainxApiHeaders example_env) = Rejects ?e"
    by (simp add: example_axios_def)
  have h6: "is_rate_limited ?e" by (simp add: is_rate_limited_def example_rejection_def)
  have u: "update_failed (workOrderId ?pl) ?e =
      Console ERROR [Txt ''[processWebhookEvent] Failed to update Work Order 101 in MaintainX:'',
                     Dat (DataText ''Too Many Requests'')]"
    by code_simp
  have r: "rate_limit_warning ?e =
      Console WARN [Txt ''[processWebhookEvent] Rate limited. Retrying after 60 seconds. (In production, would queue for retry)'']"
    by code_simp
  show ?thesis
    using processWebhookEvent_429_logs_error[OF h1 h2 h3 h4 h5 h6] by (simp only: u r append_Nil)
qed

lemma processWebhookEvent_other_failure:
  assumes "newWorkOrder payload = Some w" and "truthy (priority w)"
    and "calculateDueDate nd (priority w) = (Inr (Some d), outc)" and "d \<noteq> []"
    and "axios_patch ax (MAINTAINX_BASE_URL env @ ''/workorders/'' @ show_int (workOrderId payload)) d
           (maintainxApiHeaders env) = Rejects e"
    and "\<not> is_rate_limited e"
  shows "filter (is_console ERROR) (snd (processWebhookEvent nd env ax payload)) =
           [update_failed (workOrderId payload) e]
       \<and> filter (is_console WARN) (snd (processWebhookEvent nd env ax payload)) = outc"
proof -
  have o: "outc = snd (calculateDueDate nd (priority w))" using assms(3) by simp
  show ?thesis
    unfolding processWebhookEvent_def Let_def assms(1) option.case
      automateDueDate_patch[OF assms(2) assms(3) assms(4)] assms(5)
    using assms(6) by (simp add: o calculateDueDate_filters)
qed

lemma processWebhookEvent_embedded_patch:
  assumes "newWorkOrder payload = Some w" and "truthy (priority w)"
    and "calculateDueDate nd (priority w) = (Inr (Some d), outc)" and "d \<noteq> []"
  shows "processWebhookEvent_embedded nd env ax payload =
           (Inr (),
            outc @
            [Console LOG [Txt (''[processWebhookEvent] Calculated new due date for WO '' @
                               show_int (workOrderId payload) @
                               '' (Priority: '' @ show_opt (priority w) @ ''): '' @ d)],
             Patch (MAINTAINX_BASE_URL env @ ''/workorders/'' @ show_int (workOrderId payload)) d
               (maintainxApiHeaders env)] @
            (case axios_patch ax (MAINTAINX_BASE_URL env @ ''/workorders/'' @ show_int (workOrderId payload)) d
                    (maintainxApiHeaders env) of
               Resolves r \<Rightarrow> success_logs (workOrderId payload) r
             | Rejects e \<Rightarrow>
                 if is_rate_limited e then [rate_limit_warning e]
                 else [update_failed (workOrderId payload) e]))"
  using assms by (simp add: processWebhookEvent_embedded_def truthy_def Let_def split: outcome.splits)

text \<open>The revision under src/src keeps the two cases apart, as the claim has it.\<close>

lemma processWebhookEvent_embedded_failure:
  assumes "newWorkOrder payload = Some w" and "truthy (priority w)"
    and "calculateDueDate nd (priority w) = (Inr (Some d), outc)" and "d \<noteq> []"
    and "axios_patch ax (MAINTAINX_BASE_URL env @ ''/workorders/'' @ show_int (workOrderId payload)) d
           (maintainxApiHeaders env) = Rejects e"
  shows "filter (is_console ERROR) (snd (processWebhookEvent_embedded nd env ax payload)) =
           (if is_rate_limited e then [] else [update_failed (workOrderId payload) e])
       \<and> filter (is_console WARN) (snd (processWebhookEvent_embedded nd env ax payload)) =
           outc @ (if is_rate_limited e then [rate_limit_warning e] else [])"
proof -
  have o: "outc = snd (calculateDueDate nd (priority w))" using assms(3) by simp
  show ?thesis
    unfolding processWebhookEvent_embedded_patch[OF assms(1-4)] assms(5)
    by (simp add: o calculateDueDate_filters)
qed

lemma automateDueDate_fulfils:
  assumes "\<forall>n. 0 \<le> n \<and> n \<le> 14 \<longrightarrow> \<bar>UTC nd (LocalTime nd (Date_now nd) + n * msPerDay)\<bar> \<le> maxTime"
  shows "fst (automateDueDate nd env ax wid out x) = Inr ()"
proof (cases x)
  case None
  then show ?thesis by (simp add: automateDueDate_def)
next
  case (Some w)
  obtain s where s: "fst (calculateDueDate nd (priority w)) = Inr (Some s)" "s \<noteq> []"
    using calculateDueDate_returns[OF assms] by blast
  then obtain outc where c: "calculateDueDate nd (priority w) = (Inr (Some s), outc)"
    by (cases "calculateDueDate nd (priority w)") simp
  show ?thesis
  proof (cases "truthy (priority w)")
    case True
    show ?thesis unfolding Some automateDueDate_patch[OF True c s(2)] by simp
  next
    case False
    then show ?thesis by (simp add: Some automateDueDate_def)
  qed
qed

lemma automateDueDate_no_get:
  "filter is_get (snd (automateDueDate nd env ax wid out x)) = filter is_get out"
proof (cases x)
  case None
  then show ?thesis by (simp add: automateDueDate_def)
next
  case (Some w)
  have g: "filter is_get (snd (calculateDueDate nd (priority w))) = []" by (rule calculateDueDate_filters(3))
  obtain res outc where c: "calculateDueDate nd (priority w) = (res, outc)"
    by (cases "calculateDueDate nd (priority w)")
  then have g': "filter is_get outc = []" using g by simp
  show ?thesis
    unfolding Some automateDueDate_def
    by (simp add: c g' Let_def success_logs_def update_failed_def rate_limit_warning_def
        split: sum.splits outcome.splits)
qed

text \<open>
  Claim C5. When the event embeds a snapshot, \<open>processWebhookEvent\<close> goes on with that
  snapshot and issues no GET. Otherwise it issues one GET, of
  \<open>{baseUrl}/workorders/{workOrderId}\<close>; when that resolves with an object it goes on with
  the object's \<open>workOrder\<close>, and when it fails, by a rejection or by a body that is
  \<open>null\<close> or \<open>undefined\<close>, it logs the failure and ends there, fulfilled, with no
  PATCH.
\<close>

theorem processWebhookEvent_resolves_details:
  "(let wid = workOrderId payload;
        url = MAINTAINX_BASE_URL env @ ''/workorders/'' @ show_int wid;
        hs = maintainxApiHeaders env;
        received = Console LOG [Txt (''[processWebhookEvent] Received payload for WO '' @ show_int wid @ '':''),
                                Txt (JSON_stringify nd payload)];
        missing = Console LOG [Txt (''[processWebhookEvent] NewWorkOrder data missing from webhook for WO '' @
                                    show_int wid @ ''. Fetching full Work Order details...'')];
        fetched = Console LOG [Txt (''[processWebhookEvent] Successfully fetched full details for WO '' @
                                    show_int wid @ ''.'')];
        failed = (\<lambda>detail. Console ERROR
                    [Txt (''[processWebhookEvent] Failed to fetch full details for WO '' @ show_int wid @ '':''),
                     detail])
    in (newWorkOrder payload = Some w \<longrightarrow>
          processWebhookEvent nd env ax payload = automateDueDate nd env ax wid [received] (Some w) \<and>
          filter is_get (snd (processWebhookEvent nd env ax payload)) = [])
     \<and> (newWorkOrder payload = None \<longrightarrow>
          filter is_get (snd (processWebhookEvent nd env ax payload)) = [Get url hs])
     \<and> (newWorkOrder payload = None \<and> axios_get ax url hs = Resolves r \<and> data r = DataObject details \<longrightarrow>
          processWebhookEvent nd env ax payload =
            automateDueDate nd env ax wid [received, missing, Get url hs, fetched] details)
     \<and> (newWorkOrder payload = None \<and> axios_get ax url hs = Rejects e \<longrightarrow>
          processWebhookEvent nd env ax payload =
            (Inr (), [received, missing, Get url hs, failed (error_detail e)]))
     \<and> (newWorkOrder payload = None \<and> axios_get ax url hs = Resolves r \<and>
        (data r = DataNull \<or> data r = DataUndefined) \<longrightarrow>
          (\<exists>detail. processWebhookEvent nd env ax payload =
            (Inr (), [received, missing, Get url hs, failed (Txt detail)])))
     \<and> (newWorkOrder payload = None \<and>
        (axios_get ax url hs = Rejects e \<or>
         axios_get ax url hs = Resolves r \<and> (data r = DataNull \<or> data r = DataUndefined)) \<longrightarrow>
          fst (processWebhookEvent nd env ax payload) = Inr () \<and>
          filter is_patch (snd (processWebhookEvent nd env ax payload)) = []))"
proof -
  have a: "newWorkOrder payload = Some w \<Longrightarrow>
      filter is_get (snd (processWebhookEvent nd env ax payload)) = []"
    by (simp add: processWebhookEvent_def Let_def automateDueDate_no_get)
  have b: "newWorkOrder payload = None \<Longrightarrow>
      filter is_get (snd (processWebhookEvent nd env ax payload)) =
        [Get (MAINTAINX_BASE_URL env @ ''/workorders/'' @ show_int (workOrderId payload)) (maintainxApiHeaders env)]"
    by (simp add: processWebhookEvent_def Let_def automateDueDate_no_get split: outcome.splits data.splits)
  show ?thesis
    unfolding Let_def using a b
    by (auto simp: processWebhookEvent_def Let_def)
qed

text \<open>
  An embedded snapshot: no GET. No snapshot and a GET rejected with status 404: one GET,
  the error log with the response body, and nothing more.
\<close>

theorem processWebhookEvent_resolves_details_witness:
  "filter is_get
     (snd (processWebhookEvent example_node example_env
            (example_axios (Rejects (example_rejection 404 [] ''Not Found'')) (Resolves \<lparr>status = 200, headers = [], data = DataText ''''\<rparr>))
            (example_payload (Some (example_workOrder (Some ''HIGH'')))))) = []
   \<and> filter is_get
     (snd (processWebhookEvent example_node example_env
            (example_axios (Rejects (example_rejection 404 [] ''Not Found'')) (Resolves \<lparr>status = 200, headers = [], data = DataText ''''\<rparr>))
            (example_payload None))) =
       [Get ''https://api.testmaintainx.com/v1/workorders/101''
         [(''Authorization'', ''Bearer test_api_key''), (''Content-Type'', ''application/json''),
          (''x-organization-id'', ''test_org_id'')]]
   \<and> processWebhookEvent example_node example_env
        (example_axios (Rejects (example_rejection 404 [] ''Not Found'')) (Resolves \<lparr>status = 200, headers = [], data = DataText ''''\<rparr>))
        (example_payload None) =
     (Inr (),
      [Console LOG [Txt ''[processWebhookEvent] Received payload for WO 101:'', Txt ''{}''],
       Console LOG [Txt ''[processWebhookEvent] NewWorkOrder data missing from webhook for WO 101. Fetching full Work Order details...''],
       Get ''https://api.testmaintainx.com/v1/workorders/101''
         [(''Authorization'', ''Bearer test_api_key''), (''Content-Type'', ''application/json''),
          (''x-organization-id'', ''test_org_id'')],
       Console ERROR [Txt ''[processWebhookEvent] Failed to fetch full details for WO 101:'', Dat (DataText ''Not Found'')]])"
proof -
  let ?e = "example_rejection 404 [] ''Not Found''"
  let ?ax = "example_axios (Rejects ?e) (Resolves \<lparr>status = 200, headers = [], data = DataText ''''\<rparr>)"
  have s: "show_int 101 = ''101''" by code_simp
  have j: "JSON_stringify example_node p = ''{}''" for p by (simp add: example_node_def)
  have u: "MAINTAINX_BASE_URL example_env = ''https://api.testmaintainx.com/v1''" by code_simp
  have hs: "maintainxApiHeaders example_env =
      [(''Authorization'', ''Bearer test_api_key''), (''Content-Type'', ''application/json''),
       (''x-organization-id'', ''test_org_id'')]"
    by code_simp
  have w1: "workOrderId (example_payload x) = 101" "newWorkOrder (example_payload x) = x" for x
    by (simp_all add: example_payload_def)
  have g: "axios_get ?ax url h = Rejects ?e" for url h by (simp add: example_axios_def)
  have d: "error_detail ?e = Dat (DataText ''Not Found'')" by (simp add: error_detail_def example_rejection_def)
  note T1 = processWebhookEvent_resolves_details[where payload = "example_payload (Some (example_workOrder (Some ''HIGH'')))"
      and w = "example_workOrder (Some ''HIGH'')" and nd = example_node and env = example_env and ax = ?ax]
  note T2 = processWebhookEvent_resolves_details[where payload = "example_payload None"
      and nd = example_node and env = example_env and ax = ?ax and e = ?e]
  have c1: "filter is_get (snd (processWebhookEvent example_node example_env ?ax
      (example_payload (Some (example_workOrder (Some ''HIGH'')))))) = []"
  proof -
    have "newWorkOrder (example_payload (Some (example_workOrder (Some ''HIGH'')))) =
        Some (example_workOrder (Some ''HIGH''))"
      by (simp add: w1)
    with T1[unfolded Let_def, THEN conjunct1] show ?thesis by blast
  qed
  have c2: "filter is_get (snd (processWebhookEvent example_node example_env ?ax (example_payload None))) =
       [Get ''https://api.testmaintainx.com/v1/workorders/101''
         [(''Authorization'', ''Bearer test_api_key''), (''Content-Type'', ''application/json''),
          (''x-organization-id'', ''test_org_id'')]]"
    using T2 by (simp add: Let_def w1 s u hs)
  have c3: "processWebhookEvent example_node example_env ?ax (example_payload None) =
     (Inr (),
      [Console LOG [Txt ''[processWebhookEvent] Received payload for WO 101:'', Txt ''{}''],
       Console LOG [Txt ''[processWebhookEvent] NewWorkOrder data missing from webhook for WO 101. Fetching full Work Order details...''],
       Get ''https://api.testmaintainx.com/v1/workorders/101''
         [(''Authorization'', ''Bearer test_api_key''), (''Content-Type'', ''application/json''),
          (''x-organization-id'', ''test_org_id'')],
       Console ERROR [Txt ''[processWebhookEvent] Failed to fetch full details for WO 101:'', Dat (DataText ''Not Found'')]])"
    using T2 by (simp add: Let_def w1 s u hs g d j)
  show ?thesis using c1 c2 c3 by blast
qed

text \<open>
  Claim C8. When the resolved snapshot, embedded or fetched, has no priority
  (\<open>undefined\<close> or empty), \<open>processWebhookEvent\<close> logs that at the level of
  \<open>console.log\<close> and ends there, fulfilled: no due date is computed and no PATCH is
  issued. The revision under src/src does the same with the embedded snapshot.
\<close>

theorem processWebhookEvent_no_priority:
  "(let wid = workOrderId payload;
        url = MAINTAINX_BASE_URL env @ ''/workorders/'' @ show_int wid;
        hs = maintainxApiHeaders env;
        received = Console LOG [Txt (''[processWebhookEvent] Received payload for WO '' @ show_int wid @ '':''),
                                Txt (JSON_stringify nd payload)];
        missing = Console LOG [Txt (''[processWebhookEvent] NewWorkOrder data missing from webhook for WO '' @
                                    show_int wid @ ''. Fetching full Work Order details...'')];
        fetched = Console LOG [Txt (''[processWebhookEvent] Successfully fetched full details for WO '' @
                                    show_int wid @ ''.'')];
        skipped = Console LOG [Txt (''[processWebhookEvent] Work Order '' @ show_int wid @
                                    '' has no priority set. Skipping due date automation.'')]
    in (newWorkOrder payload = Some w \<and> \<not> truthy (priority w) \<longrightarrow>
          processWebhookEvent nd env ax payload = (Inr (), [received, skipped]) \<and>
          filter is_patch (snd (processWebhookEvent nd env ax payload)) = [] \<and>
          processWebhookEvent_embedded nd env ax payload = (Inr (), [skipped]) \<and>
          filter is_patch (snd (processWebhookEvent_embedded nd env ax payload)) = [])
     \<and> (newWorkOrder payload = None \<and> axios_get ax url hs = Resolves r \<and> data r = DataObject (Some w) \<and>
        \<not> truthy (priority w) \<longrightarrow>
          processWebhookEvent nd env ax payload = (Inr (), [received, missing, Get url hs, fetched, skipped]) \<and>
          filter is_patch (snd (processWebhookEvent nd env ax payload)) = []))"
  by (simp add: processWebhookEvent_def processWebhookEvent_embedded_def automateDueDate_def Let_def)

text \<open>
  An embedded snapshot without priority, in both revisions, and a fetched snapshot whose
  priority is the empty string.
\<close>

theorem processWebhookEvent_no_priority_witness:
  "processWebhookEvent example_node example_env
     (example_axios (Rejects (example_rejection 500 [] ''unused'')) (Rejects (example_rejection 500 [] ''unused'')))
     (example_payload (Some (example_workOrder None))) =
     (Inr (),
      [Console LOG [Txt ''[processWebhookEvent] Received payload for WO 101:'', Txt ''{}''],
       Console LOG [Txt ''[processWebhookEvent] Work Order 101 has no priority set. Skipping due date automation.'']])
   \<and> processWebhookEvent_embedded example_node example_env
     (example_axios (Rejects (example_rejection 500 [] ''unused'')) (Rejects (example_rejection 500 [] ''unused'')))
     (example_payload (Some (example_workOrder None))) =
     (Inr (),
      [Console LOG [Txt ''[processWebhookEvent] Work Order 101 has no priority set. Skipping due date automation.'']])
   \<and> processWebhookEvent example_node example_env
     (example_axios (Resolves \<lparr>status = 200, headers = [], data = DataObject (Some (example_workOrder (Some '''')))\<rparr>)
        (Rejects (example_rejection 500 [] ''unused'')))
     (example_payload None) =
     (Inr (),
      [Console LOG [Txt ''[processWebhookEvent] Received payload for WO 101:'', Txt ''{}''],
       Console LOG [Txt ''[processWebhookEvent] NewWorkOrder data missing from webhook for WO 101. Fetching full Work Order details...''],
       Get ''https://api.testmaintainx.com/v1/workorders/101''
         [(''Authorization'', ''Bearer test_api_key''), (''Content-Type'', ''application/json''),
          (''x-organization-id'', ''test_org_id'')],
       Console LOG [Txt ''[processWebhookEvent] Successfully fetched full details for WO 101.''],
       Console LOG [Txt ''[processWebhookEvent] Work Order 101 has no priority set. Skipping due date automation.'']])"
proof -
  let ?ax1 = "example_axios (Rejects (example_rejection 500 [] ''unused'')) (Rejects (example_rejection 500 [] ''unused''))"
  let ?r = "\<lparr>status = 200, headers = [], data = DataObject (Some (example_workOrder (Some '''')))\<rparr>"
  let ?ax2 = "example_axios (Resolves ?r) (Rejects (example_rejection 500 [] ''unused''))"
  have s: "show_int 101 = ''101''" by code_simp
  have j: "JSON_stringify example_node p = ''{}''" for p by (simp add: example_node_def)
  have u: "MAINTAINX_BASE_URL example_env = ''https://api.testmaintainx.com/v1''" by code_simp
  have hs: "maintainxApiHeaders example_env =
      [(''Authorization'', ''Bearer test_api_key''), (''Content-Type'', ''application/json''),
       (''x-organization-id'', ''test_org_id'')]"
    by code_simp
  note T1 = processWebhookEvent_no_priority[where payload = "example_payload (Some (example_workOrder None))"
      and w = "example_workOrder None" and nd = example_node and env = example_env and ax = ?ax1]
  note T2 = processWebhookEvent_no_priority[where payload = "example_payload None"
      and w = "example_workOrder (Some '''')" and nd = example_node and env = example_env and ax = ?ax2 and r = ?r]
  have w1: "workOrderId (example_payload x) = 101" "newWorkOrder (example_payload x) = x" for x
    by (simp_all add: example_payload_def)
  have p1: "\<not> truthy (priority (example_workOrder None))" "\<not> truthy (priority (example_workOrder (Some '''')))"
    by (simp_all add: example_workOrder_def truthy_def)
  have g: "axios_get ?ax2 url h = Resolves ?r" for url h by (simp add: example_axios_def)
  show ?thesis
    using T1 T2 by (simp add: Let_def w1 p1 g s j u hs)
qed

text \<open>
  Claim C9. Whatever the payload and whatever the GET and the PATCH settle with (a
  response, a rejection with any status, a rejection without response), the promise
  \<open>processWebhookEvent\<close> returns is fulfilled, in both revisions: every failure of a
  request is caught and logged. The one exception the model has room for comes from the
  platform, not from the event: \<open>toISOString\<close> on a clock within 14 days of the end of
  the range of Date, which the hypothesis excludes.
\<close>

theorem processWebhookEvent_never_rejects:
  assumes "\<forall>n. 0 \<le> n \<and> n \<le> 14 \<longrightarrow> \<bar>UTC nd (LocalTime nd (Date_now nd) + n * msPerDay)\<bar> \<le> maxTime"
  shows "fst (processWebhookEvent nd env ax payload) = Inr ()
       \<and> fst (processWebhookEvent_embedded nd env ax payload) = Inr ()"
proof
  show "fst (processWebhookEvent nd env ax payload) = Inr ()"
    by (simp add: processWebhookEvent_def Let_def automateDueDate_fulfils[OF assms]
        split: option.splits outcome.splits data.splits)
next
  show "fst (processWebhookEvent_embedded nd env ax payload) = Inr ()"
  proof (cases "newWorkOrder payload")
    case None
    then show ?thesis by (simp add: processWebhookEvent_embedded_def)
  next
    case (Some w)
    obtain s where s: "fst (calculateDueDate nd (priority w)) = Inr (Some s)" "s \<noteq> []"
      using calculateDueDate_returns[OF assms] by blast
    then obtain outc where c: "calculateDueDate nd (priority w) = (Inr (Some s), outc)"
      by (cases "calculateDueDate nd (priority w)") simp
    show ?thesis
    proof (cases "truthy (priority w)")
      case True
      show ?thesis unfolding processWebhookEvent_embedded_patch[OF Some True c s(2)] by simp
    next
      case False
      then show ?thesis by (simp add: Some processWebhookEvent_embedded_def)
    qed
  qed
qed

text \<open>
  A GET that fails without a response, and a PATCH rejected with status 500.
\<close>

theorem processWebhookEvent_never_rejects_witness:
  "fst (processWebhookEvent example_node example_env
          (example_axios (Rejects \<lparr>error_response = None, message = ''socket hang up'', isAxiosError = True\<rparr>)
             (Rejects (example_rejection 500 [] ''Internal Server Error'')))
          (example_payload None)) = Inr ()
   \<and> fst (processWebhookEvent_embedded example_node example_env
          (example_axios (Rejects \<lparr>error_response = None, message = ''socket hang up'', isAxiosError = True\<rparr>)
             (Rejects (example_rejection 500 [] ''Internal Server Error'')))
          (example_payload (Some (example_workOrder (Some ''HIGH''))))) = Inr ()"
proof -
  have h: "\<forall>n. 0 \<le> n \<and> n \<le> 14 \<longrightarrow>
      \<bar>UTC example_node (LocalTime example_node (Date_now example_node) + n * msPerDay)\<bar> \<le> maxTime"
    by (simp add: example_node_def UTC_def LocalTime_def msPerDay_def maxTime_def)
  show ?thesis
    using processWebhookEvent_never_rejects[OF h] by blast
qed

end
